theory Spec2Isabelle
  imports Complex_Main
begin

section \<open>Python values, exceptions and library calls\<close>

text \<open>
  The repository is a FastAPI service: \<open>app/routes/router.py\<close> (file uploads),
  \<open>app/routes/gemini_api.py\<close> (the GeminiAPI client class) and
  \<open>app/routes/ai_routes.py\<close> (the /ai routes). Payloads are byte strings; a \<open>char\<close>
  is one byte. Text is modelled on the same type; string literals of the source that
  carry accented letters are written without the accent.
\<close>

type_synonym bytes = "char list"

datatype pyval =
    PNone
  | PBool bool
  | PInt int
  | PFloat rat
  | PStr string
  | PList "pyval list"
  | PDict "(string \<times> pyval) list"

type_synonym py_dict = "(string \<times> pyval) list"

text \<open>
  Exceptions are values. \<open>HTTPException\<close> carries status code and detail; the other
  constructors are the exception classes the handlers name in their \<open>except\<close>
  clauses, and \<open>OtherError\<close> stands for any further subclass of \<open>Exception\<close> a
  library call raises. All of them are subclasses of \<open>Exception\<close>, so a clause
  \<open>except Exception\<close> matches every value of this type.
\<close>

datatype exn =
    HTTPException nat string
  | BadZipFile
  | UnicodeDecodeError
  | JSONDecodeError string
  | ParseError string
  | KeyError string
  | ValueError string
  | OtherError string

record upload_file =
  filename :: string
  content_type :: string
  read :: "exn + bytes"

record image =
  img_format :: string
  img_mode :: string
  width :: nat
  height :: nat

record zip_info =
  zi_filename :: string
  file_size :: nat
  compress_size :: nat

datatype element = Element (tag: string) (attrib: "(string \<times> string) list") (children: "element list")

text \<open>
  Floating point is idealised: a Python float is a rational, \<open>/\<close> is exact division
  and \<open>round(x, 2)\<close> rounds the exact value to two decimals, ties to even.
\<close>

definition round_half_even :: "rat \<Rightarrow> int" where
  "round_half_even q =
     (let f = \<lfloor>q\<rfloor>; d = q - of_int f
      in if d < 1 / 2 then f else if 1 / 2 < d then f + 1 else if even f then f else f + 1)"

definition py_round2 :: "rat \<Rightarrow> rat" where
  "py_round2 x = of_int (round_half_even (x * 100)) / 100"

text \<open>The slice \<open>xs[i:j]\<close> for \<open>0 \<le> i \<le> j\<close>.\<close>

definition py_slice :: "'a list \<Rightarrow> nat \<Rightarrow> nat \<Rightarrow> 'a list" where
  "py_slice xs i j = take (j - i) (drop i xs)"

text \<open>\<open>sep.join(xs)\<close>.\<close>

fun join :: "string \<Rightarrow> string list \<Rightarrow> string" where
  "join sep [] = []"
| "join sep [x] = x"
| "join sep (x # y # ys) = x @ sep @ join sep (y # ys)"

text \<open>\<open>d[k]\<close> on a dict given as an association list: KeyError on a missing key.\<close>

definition subscript :: "(string \<times> 'a) list \<Rightarrow> string \<Rightarrow> exn + 'a" where
  "subscript d k = (case map_of d k of None \<Rightarrow> Inl (KeyError k) | Some v \<Rightarrow> Inr v)"

text \<open>\<open>d.get(k, default)\<close>.\<close>

definition dict_get :: "(string \<times> 'a) list \<Rightarrow> string \<Rightarrow> 'a \<Rightarrow> 'a" where
  "dict_get d k dflt = (case map_of d k of None \<Rightarrow> dflt | Some v \<Rightarrow> v)"

text \<open>\<open>str.lower()\<close> on ASCII letters; every other byte is left as it is.\<close>

definition lower_char :: "char \<Rightarrow> char" where
  "lower_char c =
     (case map_of (zip ''ABCDEFGHIJKLMNOPQRSTUVWXYZ'' ''abcdefghijklmnopqrstuvwxyz'') c of
        Some d \<Rightarrow> d
      | None \<Rightarrow> c)"

definition lower :: "string \<Rightarrow> string" where
  "lower s = map lower_char s"

text \<open>
  \<open>os.path.splitext(p)[1]\<close> as posixpath computes it: the extension starts at the last
  dot of the last path component, provided some character other than a dot precedes
  that dot inside the component; otherwise it is empty.
\<close>

definition basename :: "string \<Rightarrow> string" where
  "basename p = rev (takeWhile (\<lambda>c. c \<noteq> CHR ''/'') (rev p))"

definition splitext_ext :: "string \<Rightarrow> string" where
  "splitext_ext p =
     (let stem = dropWhile (\<lambda>c. c = CHR ''.'') (basename p)
      in if CHR ''.'' \<in> set stem
         then CHR ''.'' # rev (takeWhile (\<lambda>c. c \<noteq> CHR ''.'') (rev stem))
         else [])"

text \<open>
  The calls that leave the repository: Pillow, zipfile, codecs, csv, json, ElementTree,
  the clock, and the string conversions \<open>str(e)\<close> and \<open>str(x)\<close> of an exception and of
  a float. Each is a parameter; a call that can raise returns a sum.
\<close>

record lib =
  image_open :: "bytes \<Rightarrow> exn + image"
  zip_filelist :: "bytes \<Rightarrow> exn + zip_info list"
  decode_utf8 :: "bytes \<Rightarrow> exn + string"
  splitlines :: "string \<Rightarrow> string list"
  csv_reader :: "string list \<Rightarrow> exn + string list list"
  json_loads :: "string \<Rightarrow> exn + pyval"
  xml_fromstring :: "string \<Rightarrow> exn + element"
  utcnow :: string
  str_exn :: "exn \<Rightarrow> string"
  str_float :: "rat \<Rightarrow> string"

section \<open>router.py: configuration and validators\<close>

definition MAX_FILE_SIZE :: "(string \<times> nat) list" where
  "MAX_FILE_SIZE =
     [(''image'', 10 * 1024 * 1024),
      (''video'', 100 * 1024 * 1024),
      (''zip'', 50 * 1024 * 1024),
      (''pdf'', 20 * 1024 * 1024),
      (''excel'', 15 * 1024 * 1024),
      (''csv'', 10 * 1024 * 1024),
      (''word'', 15 * 1024 * 1024),
      (''audio'', 30 * 1024 * 1024),
      (''json'', 5 * 1024 * 1024),
      (''xml'', 5 * 1024 * 1024)]"

definition ALLOWED_EXTENSIONS :: "(string \<times> string list) list" where
  "ALLOWED_EXTENSIONS =
     [(''image'', [''.jpg'', ''.jpeg'', ''.png'', ''.gif'']),
      (''video'', [''.mp4'', ''.avi'', ''.mov'', ''.mkv'']),
      (''zip'', [''.zip'']),
      (''pdf'', [''.pdf'']),
      (''excel'', [''.xlsx'', ''.xls'']),
      (''csv'', [''.csv'']),
      (''word'', [''.docx'', ''.doc'']),
      (''audio'', [''.mp3'', ''.wav'', ''.ogg'']),
      (''json'', [''.json'']),
      (''xml'', [''.xml''])]"

definition validate_file_size :: "bytes \<Rightarrow> string \<Rightarrow> bool" where
  "validate_file_size file_content file_type =
     (length file_content \<le> dict_get MAX_FILE_SIZE file_type (5 * 1024 * 1024))"

definition validate_file_extension :: "string \<Rightarrow> string \<Rightarrow> bool" where
  "validate_file_extension fname file_type =
     (let ext = lower (splitext_ext fname)
      in ext \<in> set (dict_get ALLOWED_EXTENSIONS file_type []))"

definition generate_response :: "lib \<Rightarrow> bool \<Rightarrow> string \<Rightarrow> py_dict \<Rightarrow> py_dict" where
  "generate_response l success message data =
     (let response =
            [(''success'', PBool success),
             (''message'', PStr message),
             (''timestamp'', PStr (utcnow l))]
      in if data \<noteq> [] then response @ [(''data'', PDict data)] else response)"

definition size_mb :: "bytes \<Rightarrow> pyval" where
  "size_mb contents = PFloat (py_round2 (of_nat (length contents) / (1024 * 1024)))"

text \<open>\<open>str(n)\<close> of a non-negative integer.\<close>

fun str_nat :: "nat \<Rightarrow> string" where
  "str_nat n =
     (if n < 10 then [''0123456789'' ! n]
      else str_nat (n div 10) @ [''0123456789'' ! (n mod 10)])"

declare str_nat.simps [simp del]

section \<open>router.py: the single-file upload handlers\<close>

text \<open>
  Every handler opens with the same three statements inside its \<open>try\<close> block: the
  extension check (raising HTTPException 400), \<open>await file.read()\<close>, and the size check
  (raising HTTPException 413 whose detail reads \<open>MAX_FILE_SIZE[file_type]\<close>).
  \<open>checked_read\<close> is that prologue; the extension message differs per handler and is
  an argument.
\<close>

definition format_detail :: "string \<Rightarrow> string" where
  "format_detail file_type =
     ''Formato no permitido. Use: '' @ join '', '' (dict_get ALLOWED_EXTENSIONS file_type [])"

definition too_large_detail :: "lib \<Rightarrow> nat \<Rightarrow> string" where
  "too_large_detail l m =
     ''Archivo demasiado grande. Maximo: '' @ str_float l (of_nat m / (1024 * 1024)) @ ''MB''"

definition checked_read :: "lib \<Rightarrow> string \<Rightarrow> string \<Rightarrow> upload_file \<Rightarrow> exn + bytes" where
  "checked_read l file_type ext_detail file =
     (if \<not> validate_file_extension (filename file) file_type
      then Inl (HTTPException 400 ext_detail)
      else case read file of
             Inl e \<Rightarrow> Inl e
           | Inr contents \<Rightarrow>
               if \<not> validate_file_size contents file_type
               then (case subscript MAX_FILE_SIZE file_type of
                       Inl e \<Rightarrow> Inl e
                     | Inr m \<Rightarrow> Inl (HTTPException 413 (too_large_detail l m)))
               else Inr contents)"

text \<open>
  The last clause of every handler, \<open>except Exception as e: raise HTTPException(500,
  f"...{str(e)}")\<close>. HTTPException is a subclass of Exception, so the clause also
  receives the HTTPExceptions raised inside the \<open>try\<close> block.
\<close>

definition except_Exception :: "lib \<Rightarrow> string \<Rightarrow> exn \<Rightarrow> exn + 'a" where
  "except_Exception l prefix e = Inl (HTTPException 500 (prefix @ str_exn l e))"

definition upload_image_try :: "lib \<Rightarrow> upload_file \<Rightarrow> exn + py_dict" where
  "upload_image_try l file =
     (case checked_read l ''image'' (format_detail ''image'') file of
        Inl e \<Rightarrow> Inl e
      | Inr contents \<Rightarrow>
          (case image_open l contents of
             Inl e \<Rightarrow> Inl e
           | Inr img \<Rightarrow>
               Inr (generate_response l True ''Imagen procesada exitosamente''
                 [(''filename'', PStr (filename file)),
                  (''format'', PStr (img_format img)),
                  (''mode'', PStr (img_mode img)),
                  (''width'', PInt (int (width img))),
                  (''height'', PInt (int (height img))),
                  (''size_bytes'', PInt (int (length contents))),
                  (''size_mb'', size_mb contents)])))"

definition upload_image :: "lib \<Rightarrow> upload_file \<Rightarrow> exn + py_dict" where
  "upload_image l file =
     (case upload_image_try l file of
        Inl e \<Rightarrow> except_Exception l ''Error al procesar imagen: '' e
      | Inr r \<Rightarrow> Inr r)"

definition upload_video_try :: "lib \<Rightarrow> upload_file \<Rightarrow> exn + py_dict" where
  "upload_video_try l file =
     (case checked_read l ''video'' (format_detail ''video'') file of
        Inl e \<Rightarrow> Inl e
      | Inr contents \<Rightarrow>
          Inr (generate_response l True ''Video cargado exitosamente''
            [(''filename'', PStr (filename file)),
             (''content_type'', PStr (content_type file)),
             (''size_bytes'', PInt (int (length contents))),
             (''size_mb'', size_mb contents)]))"

definition upload_video :: "lib \<Rightarrow> upload_file \<Rightarrow> exn + py_dict" where
  "upload_video l file =
     (case upload_video_try l file of
        Inl e \<Rightarrow> except_Exception l ''Error al procesar video: '' e
      | Inr r \<Rightarrow> Inr r)"

text \<open>
  \<open>round((1 - info.compress_size / info.file_size) * 100, 2) if info.file_size > 0 else 0\<close>:
  a float in the first branch, the integer 0 in the second.
\<close>

definition compression_ratio :: "zip_info \<Rightarrow> pyval" where
  "compression_ratio info =
     (if file_size info > 0
      then PFloat (py_round2 ((1 - of_nat (compress_size info) / of_nat (file_size info)) * 100))
      else PInt 0)"

definition zip_entry :: "zip_info \<Rightarrow> py_dict" where
  "zip_entry info =
     [(''filename'', PStr (zi_filename info)),
      (''size_bytes'', PInt (int (file_size info))),
      (''compressed_size'', PInt (int (compress_size info))),
      (''compression_ratio'', compression_ratio info)]"

definition upload_zip_try :: "lib \<Rightarrow> upload_file \<Rightarrow> exn + py_dict" where
  "upload_zip_try l file =
     (case checked_read l ''zip'' ''Solo se permiten archivos .zip'' file of
        Inl e \<Rightarrow> Inl e
      | Inr contents \<Rightarrow>
          (case zip_filelist l contents of
             Inl e \<Rightarrow> Inl e
           | Inr filelist \<Rightarrow>
               (let file_list = foldl (\<lambda>acc info. acc @ [zip_entry info]) [] filelist
                in Inr (generate_response l True ''Archivo ZIP procesado exitosamente''
                     [(''filename'', PStr (filename file)),
                      (''total_files'', PInt (int (length file_list))),
                      (''size_mb'', size_mb contents),
                      (''files'', PList (map PDict file_list))]))))"

definition upload_zip :: "lib \<Rightarrow> upload_file \<Rightarrow> exn + py_dict" where
  "upload_zip l file =
     (case upload_zip_try l file of
        Inl BadZipFile \<Rightarrow> Inl (HTTPException 400 ''Archivo ZIP corrupto o invalido'')
      | Inl e \<Rightarrow> except_Exception l ''Error al procesar ZIP: '' e
      | Inr r \<Rightarrow> Inr r)"

text \<open>\<open>s.startswith(p)\<close> on byte strings.\<close>

definition startswith :: "bytes \<Rightarrow> bytes \<Rightarrow> bool" where
  "startswith s p = (take (length p) s = p)"

definition upload_pdf_try :: "lib \<Rightarrow> upload_file \<Rightarrow> exn + py_dict" where
  "upload_pdf_try l file =
     (case checked_read l ''pdf'' ''Solo se permiten archivos .pdf'' file of
        Inl e \<Rightarrow> Inl e
      | Inr contents \<Rightarrow>
          if \<not> startswith contents ''%PDF''
          then Inl (HTTPException 400 ''El archivo no es un PDF valido'')
          else Inr (generate_response l True ''PDF cargado exitosamente''
                 [(''filename'', PStr (filename file)),
                  (''size_bytes'', PInt (int (length contents))),
                  (''size_mb'', size_mb contents),
                  (''is_valid'', PBool True)]))"

definition upload_pdf :: "lib \<Rightarrow> upload_file \<Rightarrow> exn + py_dict" where
  "upload_pdf l file =
     (case upload_pdf_try l file of
        Inl e \<Rightarrow> except_Exception l ''Error al procesar PDF: '' e
      | Inr r \<Rightarrow> Inr r)"

definition upload_excel_try :: "lib \<Rightarrow> upload_file \<Rightarrow> exn + py_dict" where
  "upload_excel_try l file =
     (case checked_read l ''excel'' (format_detail ''excel'') file of
        Inl e \<Rightarrow> Inl e
      | Inr contents \<Rightarrow>
          Inr (generate_response l True ''Archivo Excel cargado exitosamente''
            [(''filename'', PStr (filename file)),
             (''size_bytes'', PInt (int (length contents))),
             (''size_mb'', size_mb contents),
             (''extension'', PStr (splitext_ext (filename file)))]))"

definition upload_excel :: "lib \<Rightarrow> upload_file \<Rightarrow> exn + py_dict" where
  "upload_excel l file =
     (case upload_excel_try l file of
        Inl e \<Rightarrow> except_Exception l ''Error al procesar Excel: '' e
      | Inr r \<Rightarrow> Inr r)"

definition upload_csv_try :: "lib \<Rightarrow> upload_file \<Rightarrow> exn + py_dict" where
  "upload_csv_try l file =
     (case checked_read l ''csv'' ''Solo se permiten archivos .csv'' file of
        Inl e \<Rightarrow> Inl e
      | Inr contents \<Rightarrow>
          (case decode_utf8 l contents of
             Inl e \<Rightarrow> Inl e
           | Inr text_content \<Rightarrow>
               (case csv_reader l (splitlines l text_content) of
                  Inl e \<Rightarrow> Inl e
                | Inr rows \<Rightarrow>
                    (let headers = (case rows of [] \<Rightarrow> [] | first_row # _ \<Rightarrow> first_row)
                     in Inr (generate_response l True ''CSV procesado exitosamente''
                          [(''filename'', PStr (filename file)),
                           (''size_bytes'', PInt (int (length contents))),
                           (''size_mb'', size_mb contents),
                           (''total_rows'', PInt (int (length rows))),
                           (''total_columns'', PInt (int (length headers))),
                           (''columns'', PList (map PStr headers)),
                           (''preview_rows'',
                              PList (map (\<lambda>row. PList (map PStr row))
                                (if length rows > 1 then py_slice rows 1 6 else [])))])))))"

definition upload_csv :: "lib \<Rightarrow> upload_file \<Rightarrow> exn + py_dict" where
  "upload_csv l file =
     (case upload_csv_try l file of
        Inl UnicodeDecodeError \<Rightarrow>
          Inl (HTTPException 400 ''El archivo CSV tiene una codificacion no valida. Use UTF-8'')
      | Inl e \<Rightarrow> except_Exception l ''Error al procesar CSV: '' e
      | Inr r \<Rightarrow> Inr r)"

definition upload_word_try :: "lib \<Rightarrow> upload_file \<Rightarrow> exn + py_dict" where
  "upload_word_try l file =
     (case checked_read l ''word'' (format_detail ''word'') file of
        Inl e \<Rightarrow> Inl e
      | Inr contents \<Rightarrow>
          Inr (generate_response l True ''Documento Word cargado exitosamente''
            [(''filename'', PStr (filename file)),
             (''size_bytes'', PInt (int (length contents))),
             (''size_mb'', size_mb contents),
             (''extension'', PStr (splitext_ext (filename file)))]))"

definition upload_word :: "lib \<Rightarrow> upload_file \<Rightarrow> exn + py_dict" where
  "upload_word l file =
     (case upload_word_try l file of
        Inl e \<Rightarrow> except_Exception l ''Error al procesar documento Word: '' e
      | Inr r \<Rightarrow> Inr r)"

definition upload_audio_try :: "lib \<Rightarrow> upload_file \<Rightarrow> exn + py_dict" where
  "upload_audio_try l file =
     (case checked_read l ''audio'' (format_detail ''audio'') file of
        Inl e \<Rightarrow> Inl e
      | Inr contents \<Rightarrow>
          Inr (generate_response l True ''Archivo de audio cargado exitosamente''
            [(''filename'', PStr (filename file)),
             (''content_type'', PStr (content_type file)),
             (''size_bytes'', PInt (int (length contents))),
             (''size_mb'', size_mb contents),
             (''extension'', PStr (splitext_ext (filename file)))]))"

definition upload_audio :: "lib \<Rightarrow> upload_file \<Rightarrow> exn + py_dict" where
  "upload_audio l file =
     (case upload_audio_try l file of
        Inl e \<Rightarrow> except_Exception l ''Error al procesar audio: '' e
      | Inr r \<Rightarrow> Inr r)"

text \<open>\<open>type(v).__name__\<close> of a value the JSON parser returns.\<close>

fun type_name :: "pyval \<Rightarrow> string" where
  "type_name PNone = ''NoneType''"
| "type_name (PBool _) = ''bool''"
| "type_name (PInt _) = ''int''"
| "type_name (PFloat _) = ''float''"
| "type_name (PStr _) = ''str''"
| "type_name (PList _) = ''list''"
| "type_name (PDict _) = ''dict''"

text \<open>
  The keys of a dict, in insertion order. A dict holds each key once; the association
  list of a \<open>PDict\<close> the parser returns has distinct keys.
\<close>

definition dict_keys :: "(string \<times> 'a) list \<Rightarrow> string list" where
  "dict_keys d = map fst d"

text \<open>The branch \<open>if isinstance(json_data, dict) ... elif isinstance(json_data, list)\<close>.\<close>

fun json_structure :: "pyval \<Rightarrow> py_dict" where
  "json_structure (PDict d) =
     [(''keys'', PList (map PStr (dict_keys d))),
      (''key_count'', PInt (int (length (dict_keys d))))]"
| "json_structure (PList xs) = [(''array_length'', PInt (int (length xs)))]"
| "json_structure _ = []"

text \<open>
  The inner \<open>try\<close> of upload_json covers \<open>contents.decode('utf-8')\<close> and
  \<open>json.loads\<close>; its only clause turns a JSONDecodeError into HTTPException 400, which
  is raised inside the outer \<open>try\<close>.
\<close>

definition upload_json_parse :: "lib \<Rightarrow> bytes \<Rightarrow> exn + pyval" where
  "upload_json_parse l contents =
     (case (case decode_utf8 l contents of Inl e \<Rightarrow> Inl e | Inr txt \<Rightarrow> json_loads l txt) of
        Inl (JSONDecodeError msg) \<Rightarrow>
          Inl (HTTPException 400 (''JSON invalido: '' @ str_exn l (JSONDecodeError msg)))
      | Inl e \<Rightarrow> Inl e
      | Inr json_data \<Rightarrow> Inr json_data)"

definition upload_json_try :: "lib \<Rightarrow> upload_file \<Rightarrow> exn + py_dict" where
  "upload_json_try l file =
     (case checked_read l ''json'' ''Solo se permiten archivos .json'' file of
        Inl e \<Rightarrow> Inl e
      | Inr contents \<Rightarrow>
          (case upload_json_parse l contents of
             Inl e \<Rightarrow> Inl e
           | Inr json_data \<Rightarrow>
               (let data_type = type_name json_data;
                    json_info =
                      [(''filename'', PStr (filename file)),
                       (''size_bytes'', PInt (int (length contents))),
                       (''size_mb'', size_mb contents),
                       (''data_type'', PStr data_type),
                       (''is_valid'', PBool True)]
                in Inr (generate_response l True ''JSON procesado exitosamente''
                     (json_info @ json_structure json_data)))))"

definition upload_json :: "lib \<Rightarrow> upload_file \<Rightarrow> exn + py_dict" where
  "upload_json l file =
     (case upload_json_try l file of
        Inl UnicodeDecodeError \<Rightarrow>
          Inl (HTTPException 400 ''El archivo JSON tiene una codificacion no valida. Use UTF-8'')
      | Inl e \<Rightarrow> except_Exception l ''Error al procesar JSON: '' e
      | Inr r \<Rightarrow> Inr r)"

text \<open>
  The nested function of upload_xml; iterating an Element yields its child elements
  in document order.
  \<^verbatim>\<open>
  def count_elements(element):
      count = 1
      for child in element:
          count += count_elements(child)
      return count
  \<close>
\<close>

fun count_elements :: "element \<Rightarrow> nat" where
  "count_elements (Element t a cs) =
     fold (\<lambda>child count. count + count_elements child) cs 1"

definition upload_xml_parse :: "lib \<Rightarrow> bytes \<Rightarrow> exn + element" where
  "upload_xml_parse l contents =
     (case (case decode_utf8 l contents of Inl e \<Rightarrow> Inl e | Inr txt \<Rightarrow> xml_fromstring l txt) of
        Inl (ParseError msg) \<Rightarrow>
          Inl (HTTPException 400 (''XML invalido: '' @ str_exn l (ParseError msg)))
      | Inl e \<Rightarrow> Inl e
      | Inr root_el \<Rightarrow> Inr root_el)"

definition upload_xml_try :: "lib \<Rightarrow> upload_file \<Rightarrow> exn + py_dict" where
  "upload_xml_try l file =
     (case checked_read l ''xml'' ''Solo se permiten archivos .xml'' file of
        Inl e \<Rightarrow> Inl e
      | Inr contents \<Rightarrow>
          (case upload_xml_parse l contents of
             Inl e \<Rightarrow> Inl e
           | Inr root_el \<Rightarrow>
               Inr (generate_response l True ''XML procesado exitosamente''
                 [(''filename'', PStr (filename file)),
                  (''size_bytes'', PInt (int (length contents))),
                  (''size_mb'', size_mb contents),
                  (''root_tag'', PStr (tag root_el)),
                  (''total_elements'', PInt (int (count_elements root_el))),
                  (''root_attributes'', PDict (map (\<lambda>(k, v). (k, PStr v)) (attrib root_el))),
                  (''is_valid'', PBool True)])))"

definition upload_xml :: "lib \<Rightarrow> upload_file \<Rightarrow> exn + py_dict" where
  "upload_xml l file =
     (case upload_xml_try l file of
        Inl UnicodeDecodeError \<Rightarrow>
          Inl (HTTPException 400 ''El archivo XML tiene una codificacion no valida. Use UTF-8'')
      | Inl e \<Rightarrow> except_Exception l ''Error al procesar XML: '' e
      | Inr r \<Rightarrow> Inr r)"

text \<open>
  The ten routes \<open>POST /files/upload/{category}\<close> as the router registers them, and the
  key under which each handler reads the two configuration tables.
\<close>

datatype category = Image | Video | Zip | Pdf | Excel | Csv | Word | Audio | Json | Xml

fun category_key :: "category \<Rightarrow> string" where
  "category_key Image = ''image''"
| "category_key Video = ''video''"
| "category_key Zip = ''zip''"
| "category_key Pdf = ''pdf''"
| "category_key Excel = ''excel''"
| "category_key Csv = ''csv''"
| "category_key Word = ''word''"
| "category_key Audio = ''audio''"
| "category_key Json = ''json''"
| "category_key Xml = ''xml''"

fun files_upload :: "category \<Rightarrow> lib \<Rightarrow> upload_file \<Rightarrow> exn + py_dict" where
  "files_upload Image = upload_image"
| "files_upload Video = upload_video"
| "files_upload Zip = upload_zip"
| "files_upload Pdf = upload_pdf"
| "files_upload Excel = upload_excel"
| "files_upload Csv = upload_csv"
| "files_upload Word = upload_word"
| "files_upload Audio = upload_audio"
| "files_upload Json = upload_json"
| "files_upload Xml = upload_xml"

section \<open>router.py: the batch upload\<close>

text \<open>
  \<^verbatim>\<open>
  file_type = None
  for ftype, extensions in ALLOWED_EXTENSIONS.items():
      if ext in extensions:
          file_type = ftype
          break
  \<close>
\<close>

fun find_file_type :: "(string \<times> string list) list \<Rightarrow> string \<Rightarrow> string option" where
  "find_file_type [] ext = None"
| "find_file_type ((ftype, extensions) # items) ext =
     (if ext \<in> set extensions then Some ftype else find_file_type items ext)"

text \<open>
  The body of the loop's \<open>try\<close>. \<open>if not file_type\<close> holds for None and for the
  empty string.
\<close>

definition unsupported_item :: "upload_file \<Rightarrow> py_dict" where
  "unsupported_item file =
     [(''filename'', PStr (filename file)),
      (''success'', PBool False),
      (''error'', PStr ''Tipo de archivo no soportado'')]"

definition batch_item_try :: "lib \<Rightarrow> upload_file \<Rightarrow> exn + py_dict" where
  "batch_item_try l file =
     (let ext = lower (splitext_ext (filename file))
      in case read file of
           Inl e \<Rightarrow> Inl e
         | Inr contents \<Rightarrow>
             (case find_file_type ALLOWED_EXTENSIONS ext of
                None \<Rightarrow> Inr (unsupported_item file)
              | Some ft \<Rightarrow>
                  if ft = [] then Inr (unsupported_item file)
                  else if \<not> validate_file_size contents ft
                  then (case subscript MAX_FILE_SIZE ft of
                          Inl e \<Rightarrow> Inl e
                        | Inr m \<Rightarrow>
                            Inr [(''filename'', PStr (filename file)),
                                 (''success'', PBool False),
                                 (''error'', PStr (too_large_detail l m))])
                  else Inr [(''filename'', PStr (filename file)),
                            (''success'', PBool True),
                            (''file_type'', PStr ft),
                            (''size_mb'', size_mb contents)]))"

text \<open>One pass of the loop body: exactly one dict is appended to \<open>results\<close>.\<close>

definition batch_item :: "lib \<Rightarrow> upload_file \<Rightarrow> py_dict" where
  "batch_item l file =
     (case batch_item_try l file of
        Inl e \<Rightarrow> [(''filename'', PStr (filename file)),
                  (''success'', PBool False),
                  (''error'', PStr (str_exn l e))]
      | Inr r \<Rightarrow> r)"

definition upload_multiple_files :: "lib \<Rightarrow> upload_file list \<Rightarrow> exn + py_dict" where
  "upload_multiple_files l files =
     (if length files > 10
      then Inl (HTTPException 400 ''Maximo 10 archivos por solicitud'')
      else (let results = foldl (\<lambda>results file. results @ [batch_item l file]) [] files
            in Inr (generate_response l True
                 (''Procesados '' @ str_nat (length results) @ '' archivos'')
                 [(''results'', PList (map PDict results))])))"

section \<open>gemini_api.py: the GeminiAPI client\<close>

definition GEMINI_MODELS :: "(string \<times> string) list" where
  "GEMINI_MODELS =
     [(''pro'', ''gemini-1.5-pro-latest''),
      (''flash'', ''gemini-1.5-flash-latest''),
      (''vision'', ''gemini-1.5-pro-latest'')]"

text \<open>
  What the google.generativeai library is handed: the contents of a
  \<open>generate_content\<close> call are text and images; every request names the model and the
  temperature of the model object it is sent through.
\<close>

datatype part = TextPart string | ImagePart image

datatype request =
    GenerateContent string rat "part list"
  | SendMessage string rat "py_dict list" string
  | EmbedContent string string string

text \<open>
  A response object: reading \<open>response.text\<close> can raise (a blocked or empty
  candidate), and \<open>usage_metadata\<close> (prompt and candidate token counts) may be missing.
\<close>

record gen_response =
  response_text :: "exn + string"
  usage_metadata :: "(nat \<times> nat) option"

text \<open>
  The library and builtin calls of gemini_api.py. \<open>set_temperature\<close> is the assignment
  \<open>selected_model._generation_config.temperature = temperature\<close>; \<open>strip_fences\<close> is
  \<open>s.strip().replace("```json", "").replace("```", "")\<close>; \<open>str_pyval\<close> formats a value
  inside an f-string.
\<close>

record genai =
  generate_content :: "string \<Rightarrow> rat \<Rightarrow> part list \<Rightarrow> exn + gen_response"
  send_message :: "string \<Rightarrow> rat \<Rightarrow> py_dict list \<Rightarrow> string \<Rightarrow> exn + gen_response"
  embed_content :: "string \<Rightarrow> string \<Rightarrow> string \<Rightarrow> exn + rat list"
  set_temperature :: "rat \<Rightarrow> exn + unit"
  b64decode :: "bytes \<Rightarrow> exn + bytes"
  strip_fences :: "string \<Rightarrow> string"
  str_pyval :: "pyval \<Rightarrow> string"

text \<open>
  The fields of a GeminiAPI object that the methods read or write: the key, the chat
  history, and the temperature held in the generation config of \<open>model_pro\<close> and of
  \<open>model_flash\<close> (0.7 from DEFAULT_GENERATION_CONFIG).
\<close>

record gemini_api =
  api_key :: string
  chat_history :: "py_dict list"
  temperature_pro :: rat
  temperature_flash :: rat

text \<open>
  \<open>GeminiAPI(api_key)\<close> with the value of \<open>os.getenv("GOOGLE_API_KEY")\<close>: the key is
  \<open>api_key or os.getenv(...)\<close>, and a missing or empty key raises ValueError.
\<close>

definition GeminiAPI :: "string option \<Rightarrow> string option \<Rightarrow> exn + gemini_api" where
  "GeminiAPI api_key_arg env_key =
     (let key = (case api_key_arg of
                   None \<Rightarrow> env_key
                 | Some k \<Rightarrow> if k \<noteq> [] then Some k else env_key)
      in case key of
           None \<Rightarrow> Inl (ValueError ''API key no proporcionada'')
         | Some k \<Rightarrow>
             if k = [] then Inl (ValueError ''API key no proporcionada'')
             else Inr \<lparr> api_key = k, chat_history = [],
                        temperature_pro = 7 / 10, temperature_flash = 7 / 10 \<rparr>)"

text \<open>
  A method returns its result (or the exception that leaves it), the object after
  the call, and the requests it issued to the library, in order.
\<close>

type_synonym outcome = "(exn + py_dict) \<times> gemini_api \<times> request list"

text \<open>
  The clause that closes the \<open>try\<close> of every operation method:
  \<^verbatim>\<open>
  except Exception as e:
      return {"success": False, "error": str(e), "timestamp": datetime.utcnow().isoformat()}
  \<close>
\<close>

definition failure :: "lib \<Rightarrow> exn \<Rightarrow> py_dict" where
  "failure l e =
     [(''success'', PBool False),
      (''error'', PStr (str_exn l e)),
      (''timestamp'', PStr (utcnow l))]"

definition except_return :: "lib \<Rightarrow> outcome \<Rightarrow> outcome" where
  "except_return l out =
     (case out of
        (Inl e, self, reqs) \<Rightarrow> (Inr (failure l e), self, reqs)
      | (Inr d, self, reqs) \<Rightarrow> (Inr d, self, reqs))"

definition pro_name :: string where
  "pro_name = ''gemini-1.5-pro-latest''"

definition flash_name :: string where
  "flash_name = ''gemini-1.5-flash-latest''"

text \<open>
  \<open>response = model.generate_content(contents)\<close> followed by a \<open>return\<close> whose dict
  reads \<open>response.text\<close>: the request is issued, and the rest of the \<open>try\<close> block runs
  on the text when both steps succeed.
\<close>

definition generate :: "genai \<Rightarrow> gemini_api \<Rightarrow> string \<Rightarrow> rat \<Rightarrow> part list \<Rightarrow>
    (gen_response \<Rightarrow> string \<Rightarrow> exn + py_dict) \<Rightarrow> outcome" where
  "generate g self name temp contents k =
     (case generate_content g name temp contents of
        Inl e \<Rightarrow> (Inl e, self, [GenerateContent name temp contents])
      | Inr response \<Rightarrow>
          (case response_text response of
             Inl e \<Rightarrow> (Inl e, self, [GenerateContent name temp contents])
           | Inr t \<Rightarrow> (k response t, self, [GenerateContent name temp contents])))"

definition token_count :: "(nat \<times> nat) option \<Rightarrow> ((nat \<times> nat) \<Rightarrow> nat) \<Rightarrow> pyval" where
  "token_count usage sel = (case usage of None \<Rightarrow> PNone | Some u \<Rightarrow> PInt (int (sel u)))"

definition analyze_text_try :: "lib \<Rightarrow> genai \<Rightarrow> gemini_api \<Rightarrow> string \<Rightarrow> string \<Rightarrow> rat \<Rightarrow> outcome" where
  "analyze_text_try l g self txt model temperature =
     (case (if temperature \<noteq> 7 / 10 then set_temperature g temperature else Inr ()) of
        Inl e \<Rightarrow> (Inl e, self, [])
      | Inr _ \<Rightarrow>
          (let self' =
                 (if temperature \<noteq> 7 / 10
                  then (if model = ''pro'' then self\<lparr>temperature_pro := temperature\<rparr>
                        else self\<lparr>temperature_flash := temperature\<rparr>)
                  else self);
               name = (if model = ''pro'' then pro_name else flash_name);
               temp = (if model = ''pro'' then temperature_pro self' else temperature_flash self')
           in generate g self' name temp [TextPart txt]
                (\<lambda>response t.
                   case subscript GEMINI_MODELS model of
                     Inl e \<Rightarrow> Inl e
                   | Inr model_used \<Rightarrow>
                       Inr [(''success'', PBool True),
                            (''response'', PStr t),
                            (''model_used'', PStr model_used),
                            (''prompt_tokens'', token_count (usage_metadata response) fst),
                            (''completion_tokens'', token_count (usage_metadata response) snd),
                            (''timestamp'', PStr (utcnow l))])))"

definition analyze_text :: "lib \<Rightarrow> genai \<Rightarrow> gemini_api \<Rightarrow> string \<Rightarrow> string \<Rightarrow> rat \<Rightarrow> outcome" where
  "analyze_text l g self txt model temperature =
     except_return l (analyze_text_try l g self txt model temperature)"

text \<open>
  The history handed to \<open>start_chat\<close>:
  \<open>[{"role": msg["role"], "parts": [msg["content"]]} for msg in self.chat_history]\<close>.
\<close>

fun chat_parts :: "py_dict list \<Rightarrow> exn + py_dict list" where
  "chat_parts [] = Inr []"
| "chat_parts (msg # msgs) =
     (case subscript msg ''role'' of
        Inl e \<Rightarrow> Inl e
      | Inr role \<Rightarrow>
          (case subscript msg ''content'' of
             Inl e \<Rightarrow> Inl e
           | Inr content \<Rightarrow>
               (case chat_parts msgs of
                  Inl e \<Rightarrow> Inl e
                | Inr rest \<Rightarrow> Inr ([(''role'', role), (''parts'', PList [content])] # rest))))"

definition chat_message :: "lib \<Rightarrow> string \<Rightarrow> string \<Rightarrow> py_dict" where
  "chat_message l role content =
     [(''role'', PStr role), (''content'', PStr content), (''timestamp'', PStr (utcnow l))]"

text \<open>
  The statements of chat after \<open>response = chat.send_message(message)\<close>: the user
  message is appended, then the model message (which reads \<open>response.text\<close>), then the
  dict is built.
\<close>

definition chat_record :: "lib \<Rightarrow> gemini_api \<Rightarrow> string \<Rightarrow> string \<Rightarrow> gen_response \<Rightarrow> (exn + py_dict) \<times> gemini_api" where
  "chat_record l self1 message model response =
     (let self2 = self1\<lparr>chat_history := chat_history self1 @ [chat_message l ''user'' message]\<rparr>
      in case response_text response of
           Inl e \<Rightarrow> (Inl e, self2)
         | Inr t \<Rightarrow>
             (let self3 = self2\<lparr>chat_history := chat_history self2 @ [chat_message l ''model'' t]\<rparr>
              in (case subscript GEMINI_MODELS model of
                    Inl e \<Rightarrow> Inl e
                  | Inr model_used \<Rightarrow>
                      Inr [(''success'', PBool True),
                           (''response'', PStr t),
                           (''history_length'', PInt (int (length (chat_history self3)))),
                           (''model_used'', PStr model_used),
                           (''timestamp'', PStr (utcnow l))],
                  self3)))"

definition chat_try :: "lib \<Rightarrow> genai \<Rightarrow> gemini_api \<Rightarrow> string \<Rightarrow> string \<Rightarrow> bool \<Rightarrow> outcome" where
  "chat_try l g self message model clear_history =
     (let self1 = (if clear_history then self\<lparr>chat_history := []\<rparr> else self);
          name = (if model = ''pro'' then pro_name else flash_name);
          temp = (if model = ''pro'' then temperature_pro self1 else temperature_flash self1)
      in case chat_parts (chat_history self1) of
           Inl e \<Rightarrow> (Inl e, self1, [])
         | Inr history \<Rightarrow>
             (case send_message g name temp history message of
                Inl e \<Rightarrow> (Inl e, self1, [SendMessage name temp history message])
              | Inr response \<Rightarrow>
                  (case chat_record l self1 message model response of
                     (r, self3) \<Rightarrow> (r, self3, [SendMessage name temp history message]))))"

definition chat :: "lib \<Rightarrow> genai \<Rightarrow> gemini_api \<Rightarrow> string \<Rightarrow> string \<Rightarrow> bool \<Rightarrow> outcome" where
  "chat l g self message model clear_history =
     except_return l (chat_try l g self message model clear_history)"

text \<open>The two history methods have no \<open>try\<close>; the first returns the list itself.\<close>

definition get_chat_history :: "gemini_api \<Rightarrow> py_dict list" where
  "get_chat_history self = chat_history self"

definition clear_chat_history :: "lib \<Rightarrow> gemini_api \<Rightarrow> outcome" where
  "clear_chat_history l self =
     (let messages_cleared = length (chat_history self)
      in (Inr [(''success'', PBool True),
               (''messages_cleared'', PInt (int messages_cleared)),
               (''timestamp'', PStr (utcnow l))],
          self\<lparr>chat_history := []\<rparr>, []))"

definition image_size :: "image \<Rightarrow> string" where
  "image_size img = str_nat (width img) @ ''x'' @ str_nat (height img)"

definition analyze_image_try :: "lib \<Rightarrow> genai \<Rightarrow> gemini_api \<Rightarrow> bytes \<Rightarrow> string \<Rightarrow> string \<Rightarrow> outcome" where
  "analyze_image_try l g self image_data prompt image_format =
     (case (if image_format = ''base64'' then b64decode g image_data else Inr image_data) of
        Inl e \<Rightarrow> (Inl e, self, [])
      | Inr image_bytes \<Rightarrow>
          (case image_open l image_bytes of
             Inl e \<Rightarrow> (Inl e, self, [])
           | Inr img \<Rightarrow>
               generate g self pro_name (temperature_pro self) [TextPart prompt, ImagePart img]
                 (\<lambda>response t.
                    Inr [(''success'', PBool True),
                         (''analysis'', PStr t),
                         (''image_size'', PStr (image_size img)),
                         (''image_format'', PStr (img_format img)),
                         (''prompt_used'', PStr prompt),
                         (''timestamp'', PStr (utcnow l))])))"

definition analyze_image :: "lib \<Rightarrow> genai \<Rightarrow> gemini_api \<Rightarrow> bytes \<Rightarrow> string \<Rightarrow> string \<Rightarrow> outcome" where
  "analyze_image l g self image_data prompt image_format =
     except_return l (analyze_image_try l g self image_data prompt image_format)"

definition compare_images_try :: "lib \<Rightarrow> genai \<Rightarrow> gemini_api \<Rightarrow> bytes \<Rightarrow> bytes \<Rightarrow> string \<Rightarrow> outcome" where
  "compare_images_try l g self image1_data image2_data comparison_prompt =
     (case image_open l image1_data of
        Inl e \<Rightarrow> (Inl e, self, [])
      | Inr image1 \<Rightarrow>
          (case image_open l image2_data of
             Inl e \<Rightarrow> (Inl e, self, [])
           | Inr image2 \<Rightarrow>
               generate g self pro_name (temperature_pro self)
                 [TextPart comparison_prompt, ImagePart image1, ImagePart image2]
                 (\<lambda>response t.
                    Inr [(''success'', PBool True),
                         (''comparison'', PStr t),
                         (''image1_size'', PStr (image_size image1)),
                         (''image2_size'', PStr (image_size image2)),
                         (''timestamp'', PStr (utcnow l))])))"

definition compare_images :: "lib \<Rightarrow> genai \<Rightarrow> gemini_api \<Rightarrow> bytes \<Rightarrow> bytes \<Rightarrow> string \<Rightarrow> outcome" where
  "compare_images l g self image1_data image2_data comparison_prompt =
     except_return l (compare_images_try l g self image1_data image2_data comparison_prompt)"

definition nl :: string where
  "nl = ''\<newline>''"

text \<open>The prompt table of analyze_document, read with \<open>prompts.get(analysis_type, prompts["summary"])\<close>.\<close>

definition document_prompts :: "string \<Rightarrow> (string \<times> string) list" where
  "document_prompts document_text =
     [(''summary'', ''Resume el siguiente documento de forma concisa:'' @ nl @ nl @ document_text),
      (''key_points'', ''Extrae los puntos clave del siguiente documento:'' @ nl @ nl @ document_text),
      (''sentiment'', ''Analiza el sentimiento y tono del siguiente documento:'' @ nl @ nl @ document_text),
      (''entities'', ''Identifica las entidades principales (personas, lugares, organizaciones) en el siguiente documento:''
          @ nl @ nl @ document_text)]"

definition analyze_document_try :: "lib \<Rightarrow> genai \<Rightarrow> gemini_api \<Rightarrow> string \<Rightarrow> string \<Rightarrow> outcome" where
  "analyze_document_try l g self document_text analysis_type =
     (case subscript (document_prompts document_text) ''summary'' of
        Inl e \<Rightarrow> (Inl e, self, [])
      | Inr dflt \<Rightarrow>
          (let prompt = dict_get (document_prompts document_text) analysis_type dflt
           in generate g self pro_name (temperature_pro self) [TextPart prompt]
                (\<lambda>response t.
                   Inr [(''success'', PBool True),
                        (''analysis_type'', PStr analysis_type),
                        (''result'', PStr t),
                        (''document_length'', PInt (int (length document_text))),
                        (''timestamp'', PStr (utcnow l))])))"

definition analyze_document :: "lib \<Rightarrow> genai \<Rightarrow> gemini_api \<Rightarrow> string \<Rightarrow> string \<Rightarrow> outcome" where
  "analyze_document l g self document_text analysis_type =
     except_return l (analyze_document_try l g self document_text analysis_type)"

text \<open>\<open>schema.items()\<close>: only a dict has it.\<close>

definition dict_items :: "pyval \<Rightarrow> exn + (string \<times> pyval) list" where
  "dict_items v =
     (case v of
        PDict d \<Rightarrow> Inr d
      | _ \<Rightarrow> Inl (OtherError ''AttributeError: items''))"

definition extraction_prompt :: "genai \<Rightarrow> (string \<times> pyval) list \<Rightarrow> string \<Rightarrow> string" where
  "extraction_prompt g items txt =
     (let schema_description =
            join nl (map (\<lambda>(key, description). ''- '' @ key @ '': '' @ str_pyval g description) items)
      in nl @ ''Extrae la siguiente informacion del texto y devuelvela en formato JSON:'' @ nl @ nl
         @ schema_description @ nl @ nl @ ''Texto:'' @ nl @ txt @ nl @ nl
         @ ''Responde SOLO con el JSON, sin texto adicional.'' @ nl)"

text \<open>
  The inner \<open>try\<close> of extract_structured_data: a reply that does not parse as JSON is
  returned under \<open>raw_response\<close>; any other exception of the parser leaves the inner
  \<open>try\<close>.
\<close>

definition parse_reply :: "lib \<Rightarrow> genai \<Rightarrow> string \<Rightarrow> exn + pyval" where
  "parse_reply l g t =
     (case json_loads l (strip_fences g t) of
        Inl (JSONDecodeError _) \<Rightarrow> Inr (PDict [(''raw_response'', PStr t)])
      | Inl e \<Rightarrow> Inl e
      | Inr v \<Rightarrow> Inr v)"

definition extract_structured_data_try :: "lib \<Rightarrow> genai \<Rightarrow> gemini_api \<Rightarrow> string \<Rightarrow> pyval \<Rightarrow> outcome" where
  "extract_structured_data_try l g self txt schema =
     (case dict_items schema of
        Inl e \<Rightarrow> (Inl e, self, [])
      | Inr items \<Rightarrow>
          generate g self pro_name (temperature_pro self) [TextPart (extraction_prompt g items txt)]
            (\<lambda>response t.
               case parse_reply l g t of
                 Inl e \<Rightarrow> Inl e
               | Inr extracted_data \<Rightarrow>
                   Inr [(''success'', PBool True),
                        (''extracted_data'', extracted_data),
                        (''schema_used'', schema),
                        (''timestamp'', PStr (utcnow l))]))"

definition extract_structured_data :: "lib \<Rightarrow> genai \<Rightarrow> gemini_api \<Rightarrow> string \<Rightarrow> pyval \<Rightarrow> outcome" where
  "extract_structured_data l g self txt schema =
     except_return l (extract_structured_data_try l g self txt schema)"

definition sentiment_prompt :: "string \<Rightarrow> bool \<Rightarrow> string" where
  "sentiment_prompt txt detailed =
     (if detailed
      then nl @ ''Analiza el sentimiento del siguiente texto y proporciona:'' @ nl
           @ ''1. Sentimiento general (positivo/negativo/neutral)'' @ nl
           @ ''2. Score de confianza (0-100)'' @ nl
           @ ''3. Emociones detectadas'' @ nl
           @ ''4. Aspectos especificos y su sentimiento'' @ nl @ nl
           @ ''Texto: '' @ txt @ nl @ nl @ ''Responde en formato JSON.'' @ nl
      else nl @ ''Analiza el sentimiento del siguiente texto.'' @ nl
           @ ''Responde solo con: positivo, negativo o neutral'' @ nl @ nl
           @ ''Texto: '' @ txt @ nl)"

definition analyze_sentiment_try :: "lib \<Rightarrow> genai \<Rightarrow> gemini_api \<Rightarrow> string \<Rightarrow> bool \<Rightarrow> outcome" where
  "analyze_sentiment_try l g self txt detailed =
     generate g self flash_name (temperature_flash self) [TextPart (sentiment_prompt txt detailed)]
       (\<lambda>response t.
          Inr [(''success'', PBool True),
               (''sentiment_analysis'', PStr t),
               (''text_length'', PInt (int (length txt))),
               (''detailed'', PBool detailed),
               (''timestamp'', PStr (utcnow l))])"

definition analyze_sentiment :: "lib \<Rightarrow> genai \<Rightarrow> gemini_api \<Rightarrow> string \<Rightarrow> bool \<Rightarrow> outcome" where
  "analyze_sentiment l g self txt detailed =
     except_return l (analyze_sentiment_try l g self txt detailed)"

text \<open>
  The loop of generate_embeddings: one \<open>genai.embed_content\<close> call per text; the first
  call that raises ends the loop.
\<close>

definition embedding_entry :: "string \<Rightarrow> rat list \<Rightarrow> py_dict" where
  "embedding_entry txt embedding =
     [(''text'', PStr (if length txt > 100 then take 100 txt @ ''...'' else txt)),
      (''embedding'', PList (map PFloat embedding)),
      (''dimensions'', PInt (int (length embedding)))]"

fun embed_all :: "genai \<Rightarrow> string \<Rightarrow> string list \<Rightarrow> (exn + py_dict list) \<times> request list" where
  "embed_all g task_type [] = (Inr [], [])"
| "embed_all g task_type (txt # txts) =
     (case embed_content g ''models/embedding-001'' txt task_type of
        Inl e \<Rightarrow> (Inl e, [EmbedContent ''models/embedding-001'' txt task_type])
      | Inr embedding \<Rightarrow>
          (case embed_all g task_type txts of
             (Inl e, reqs) \<Rightarrow> (Inl e, EmbedContent ''models/embedding-001'' txt task_type # reqs)
           | (Inr embeddings, reqs) \<Rightarrow>
               (Inr (embedding_entry txt embedding # embeddings),
                EmbedContent ''models/embedding-001'' txt task_type # reqs)))"

definition generate_embeddings_try :: "lib \<Rightarrow> genai \<Rightarrow> gemini_api \<Rightarrow> string list \<Rightarrow> string \<Rightarrow> outcome" where
  "generate_embeddings_try l g self texts task_type =
     (case embed_all g task_type texts of
        (Inl e, reqs) \<Rightarrow> (Inl e, self, reqs)
      | (Inr embeddings, reqs) \<Rightarrow>
          (Inr [(''success'', PBool True),
                (''embeddings'', PList (map PDict embeddings)),
                (''total_texts'', PInt (int (length texts))),
                (''task_type'', PStr task_type),
                (''timestamp'', PStr (utcnow l))],
           self, reqs))"

definition generate_embeddings :: "lib \<Rightarrow> genai \<Rightarrow> gemini_api \<Rightarrow> string list \<Rightarrow> string \<Rightarrow> outcome" where
  "generate_embeddings l g self texts task_type =
     except_return l (generate_embeddings_try l g self texts task_type)"

definition translate_text_try :: "lib \<Rightarrow> genai \<Rightarrow> gemini_api \<Rightarrow> string \<Rightarrow> string \<Rightarrow> string \<Rightarrow> outcome" where
  "translate_text_try l g self txt target_language source_language =
     (let prompt =
            (if source_language = ''auto''
             then ''Traduce el siguiente texto a '' @ target_language @ '':'' @ nl @ nl @ txt
             else ''Traduce el siguiente texto de '' @ source_language @ '' a '' @ target_language
                  @ '':'' @ nl @ nl @ txt)
      in generate g self flash_name (temperature_flash self) [TextPart prompt]
           (\<lambda>response t.
              Inr [(''success'', PBool True),
                   (''original_text'', PStr txt),
                   (''translated_text'', PStr t),
                   (''source_language'', PStr source_language),
                   (''target_language'', PStr target_language),
                   (''timestamp'', PStr (utcnow l))]))"

definition translate_text :: "lib \<Rightarrow> genai \<Rightarrow> gemini_api \<Rightarrow> string \<Rightarrow> string \<Rightarrow> string \<Rightarrow> outcome" where
  "translate_text l g self txt target_language source_language =
     except_return l (translate_text_try l g self txt target_language source_language)"

definition length_instructions :: "(string \<times> string) list" where
  "length_instructions =
     [(''short'', ''muy breve (2-3 oraciones)''),
      (''medium'', ''moderado (1 parrafo)''),
      (''long'', ''detallado (2-3 parrafos)'')]"

definition summarize_text_try :: "lib \<Rightarrow> genai \<Rightarrow> gemini_api \<Rightarrow> string \<Rightarrow> string \<Rightarrow> bool \<Rightarrow> outcome" where
  "summarize_text_try l g self txt summary_length bullet_points =
     (let format_instruction =
            (if bullet_points then ''en formato de puntos clave'' else ''en formato de parrafo'');
          prompt = nl @ ''Resume el siguiente texto de forma ''
                   @ dict_get length_instructions summary_length ''moderada'' @ '' '' @ nl
                   @ format_instruction @ '':'' @ nl @ nl @ txt @ nl
      in generate g self pro_name (temperature_pro self) [TextPart prompt]
           (\<lambda>response t.
              Inr [(''success'', PBool True),
                   (''summary'', PStr t),
                   (''original_length'', PInt (int (length txt))),
                   (''summary_length_type'', PStr summary_length),
                   (''bullet_points'', PBool bullet_points),
                   (''timestamp'', PStr (utcnow l))]))"

definition summarize_text :: "lib \<Rightarrow> genai \<Rightarrow> gemini_api \<Rightarrow> string \<Rightarrow> string \<Rightarrow> bool \<Rightarrow> outcome" where
  "summarize_text l g self txt summary_length bullet_points =
     except_return l (summarize_text_try l g self txt summary_length bullet_points)"

definition type_instructions :: "(string \<times> string) list" where
  "type_instructions =
     [(''story'', ''Escribe una historia creativa sobre:''),
      (''poem'', ''Escribe un poema sobre:''),
      (''article'', ''Escribe un articulo informativo sobre:''),
      (''code'', ''Genera codigo para:''),
      (''general'', [])]"

text \<open>
  generate_creative_content builds a model object of its own, named
  \<open>GEMINI_MODELS["pro"]\<close>, with the requested temperature.
\<close>

definition generate_creative_content_try :: "lib \<Rightarrow> genai \<Rightarrow> gemini_api \<Rightarrow> string \<Rightarrow> string \<Rightarrow> rat \<Rightarrow> outcome" where
  "generate_creative_content_try l g self prompt ctype temperature =
     (let full_prompt = dict_get type_instructions ctype [] @ '' '' @ prompt
      in case subscript GEMINI_MODELS ''pro'' of
           Inl e \<Rightarrow> (Inl e, self, [])
         | Inr name \<Rightarrow>
             generate g self name temperature [TextPart full_prompt]
               (\<lambda>response t.
                  Inr [(''success'', PBool True),
                       (''content'', PStr t),
                       (''content_type'', PStr ctype),
                       (''temperature'', PFloat temperature),
                       (''prompt_used'', PStr prompt),
                       (''timestamp'', PStr (utcnow l))]))"

definition generate_creative_content :: "lib \<Rightarrow> genai \<Rightarrow> gemini_api \<Rightarrow> string \<Rightarrow> string \<Rightarrow> rat \<Rightarrow> outcome" where
  "generate_creative_content l g self prompt ctype temperature =
     except_return l (generate_creative_content_try l g self prompt ctype temperature)"

definition check_grammar_try :: "lib \<Rightarrow> genai \<Rightarrow> gemini_api \<Rightarrow> string \<Rightarrow> string \<Rightarrow> outcome" where
  "check_grammar_try l g self txt language =
     (let prompt = nl @ ''Revisa el siguiente texto en '' @ language @ '' y proporciona:'' @ nl
                   @ ''1. Texto corregido'' @ nl
                   @ ''2. Lista de errores encontrados'' @ nl
                   @ ''3. Sugerencias de mejora'' @ nl @ nl
                   @ ''Texto original:'' @ nl @ txt @ nl @ nl
                   @ ''Responde en formato JSON con las claves: texto_corregido, errores, sugerencias''
                   @ nl
      in generate g self pro_name (temperature_pro self) [TextPart prompt]
           (\<lambda>response t.
              Inr [(''success'', PBool True),
                   (''result'', PStr t),
                   (''original_text'', PStr txt),
                   (''language'', PStr language),
                   (''timestamp'', PStr (utcnow l))]))"

definition check_grammar :: "lib \<Rightarrow> genai \<Rightarrow> gemini_api \<Rightarrow> string \<Rightarrow> string \<Rightarrow> outcome" where
  "check_grammar l g self txt language =
     except_return l (check_grammar_try l g self txt language)"

definition analyze_tabular_data_try :: "lib \<Rightarrow> genai \<Rightarrow> gemini_api \<Rightarrow> string \<Rightarrow> string \<Rightarrow> outcome" where
  "analyze_tabular_data_try l g self data_text analysis_request =
     (let prompt = nl @ ''Analiza los siguientes datos y responde la pregunta:'' @ nl @ nl
                   @ ''Datos:'' @ nl @ data_text @ nl @ nl
                   @ ''Pregunta/Analisis solicitado:'' @ nl @ analysis_request @ nl
      in generate g self pro_name (temperature_pro self) [TextPart prompt]
           (\<lambda>response t.
              Inr [(''success'', PBool True),
                   (''analysis'', PStr t),
                   (''data_length'', PInt (int (length data_text))),
                   (''request'', PStr analysis_request),
                   (''timestamp'', PStr (utcnow l))]))"

definition analyze_tabular_data :: "lib \<Rightarrow> genai \<Rightarrow> gemini_api \<Rightarrow> string \<Rightarrow> string \<Rightarrow> outcome" where
  "analyze_tabular_data l g self data_text analysis_request =
     except_return l (analyze_tabular_data_try l g self data_text analysis_request)"


section \<open>ai_routes.py: the /ai routes\<close>

text \<open>
  The module creates one client when it is imported; a ValueError of the constructor
  leaves \<open>gemini_client = None\<close>. The argument is the value of the environment
  variable GOOGLE_API_KEY at that moment.
\<close>

definition init_gemini_client :: "string option \<Rightarrow> exn + gemini_api option" where
  "init_gemini_client env_key =
     (case GeminiAPI None env_key of
        Inl (ValueError _) \<Rightarrow> Inr None
      | Inl e \<Rightarrow> Inl e
      | Inr client \<Rightarrow> Inr (Some client))"

text \<open>
  A route returns the body of its JSONResponse (or the exception that leaves it), the
  module's client after the call, and the requests issued to the library.
\<close>

type_synonym route_outcome = "(exn + py_dict) \<times> gemini_api option \<times> request list"

definition check_gemini_available :: "gemini_api option \<Rightarrow> exn + gemini_api" where
  "check_gemini_available gemini_client =
     (case gemini_client of
        None \<Rightarrow> Inl (HTTPException 503 ''Servicio de IA no disponible. Configure GOOGLE_API_KEY'')
      | Some client \<Rightarrow> Inr client)"

text \<open>A route whose first statement is \<open>check_gemini_available()\<close>, and the rest of it.\<close>

definition with_client :: "gemini_api option \<Rightarrow> (gemini_api \<Rightarrow> outcome) \<Rightarrow> route_outcome" where
  "with_client gemini_client rest =
     (case check_gemini_available gemini_client of
        Inl e \<Rightarrow> (Inl e, gemini_client, [])
      | Inr client \<Rightarrow>
          (case rest client of (r, client', reqs) \<Rightarrow> (r, Some client', reqs)))"

text \<open>The clause \<open>except UnicodeDecodeError: raise HTTPException(400, detail)\<close>.\<close>

definition except_unicode :: "string \<Rightarrow> outcome \<Rightarrow> outcome" where
  "except_unicode detail_msg out =
     (case out of
        (Inl UnicodeDecodeError, self, reqs) \<Rightarrow> (Inl (HTTPException 400 detail_msg), self, reqs)
      | _ \<Rightarrow> out)"

definition endswith :: "string \<Rightarrow> string \<Rightarrow> bool" where
  "endswith s suffix = (length suffix \<le> length s \<and> drop (length s - length suffix) s = suffix)"

text \<open>\<open>len(text.split())\<close>: the number of maximal runs of non-whitespace (ASCII whitespace).\<close>

definition is_space :: "char \<Rightarrow> bool" where
  "is_space c = (of_char c \<in> {9, 10, 11, 12, 13, 28, 29, 30, 31, 32 :: nat})"

fun word_starts :: "bool \<Rightarrow> string \<Rightarrow> nat" where
  "word_starts in_word [] = 0"
| "word_starts in_word (c # cs) =
     (if is_space c then word_starts False cs
      else (if in_word then 0 else 1) + word_starts True cs)"

definition analyze_text_endpoint :: "lib \<Rightarrow> genai \<Rightarrow> gemini_api option \<Rightarrow> string \<Rightarrow> string \<Rightarrow> rat \<Rightarrow> route_outcome" where
  "analyze_text_endpoint l g gemini_client txt model temperature =
     with_client gemini_client (\<lambda>client. analyze_text l g client txt model temperature)"

definition chat_endpoint :: "lib \<Rightarrow> genai \<Rightarrow> gemini_api option \<Rightarrow> string \<Rightarrow> string \<Rightarrow> bool \<Rightarrow> route_outcome" where
  "chat_endpoint l g gemini_client message model clear_history =
     with_client gemini_client (\<lambda>client. chat l g client message model clear_history)"

definition get_chat_history_route :: "gemini_api option \<Rightarrow> route_outcome" where
  "get_chat_history_route gemini_client =
     with_client gemini_client
       (\<lambda>client.
          (let history = get_chat_history client
           in (Inr [(''success'', PBool True),
                    (''history'', PList (map PDict history)),
                    (''total_messages'', PInt (int (length history)))],
               client, [])))"

definition clear_chat_history_route :: "lib \<Rightarrow> gemini_api option \<Rightarrow> route_outcome" where
  "clear_chat_history_route l gemini_client =
     with_client gemini_client (\<lambda>client. clear_chat_history l client)"

definition analyze_image_endpoint :: "lib \<Rightarrow> genai \<Rightarrow> gemini_api option \<Rightarrow> upload_file \<Rightarrow> string \<Rightarrow> route_outcome" where
  "analyze_image_endpoint l g gemini_client file prompt =
     with_client gemini_client
       (\<lambda>client.
          if \<not> startswith (content_type file) ''image/''
          then (Inl (HTTPException 400 ''El archivo debe ser una imagen''), client, [])
          else (case read file of
                  Inl e \<Rightarrow> (Inl e, client, [])
                | Inr contents \<Rightarrow> analyze_image l g client contents prompt ''bytes''))"

definition compare_images_endpoint :: "lib \<Rightarrow> genai \<Rightarrow> gemini_api option \<Rightarrow> upload_file \<Rightarrow> upload_file \<Rightarrow> string \<Rightarrow> route_outcome" where
  "compare_images_endpoint l g gemini_client image1 image2 comparison_prompt =
     with_client gemini_client
       (\<lambda>client.
          if \<not> startswith (content_type image1) ''image/'' \<or> \<not> startswith (content_type image2) ''image/''
          then (Inl (HTTPException 400 ''Ambos archivos deben ser imagenes''), client, [])
          else (case read image1 of
                  Inl e \<Rightarrow> (Inl e, client, [])
                | Inr image1_data \<Rightarrow>
                    (case read image2 of
                       Inl e \<Rightarrow> (Inl e, client, [])
                     | Inr image2_data \<Rightarrow>
                         compare_images l g client image1_data image2_data comparison_prompt)))"

definition analyze_document_endpoint :: "lib \<Rightarrow> genai \<Rightarrow> gemini_api option \<Rightarrow> upload_file \<Rightarrow> string \<Rightarrow> route_outcome" where
  "analyze_document_endpoint l g gemini_client file analysis_type =
     with_client gemini_client
       (\<lambda>client.
          except_unicode ''No se pudo decodificar el archivo. Use codificacion UTF-8''
            (case read file of
               Inl e \<Rightarrow> (Inl e, client, [])
             | Inr contents \<Rightarrow>
                 (case decode_utf8 l contents of
                    Inl e \<Rightarrow> (Inl e, client, [])
                  | Inr txt \<Rightarrow> analyze_document l g client txt analysis_type)))"

definition extract_structured_data_endpoint :: "lib \<Rightarrow> genai \<Rightarrow> gemini_api option \<Rightarrow> upload_file \<Rightarrow> string \<Rightarrow> route_outcome" where
  "extract_structured_data_endpoint l g gemini_client file schema =
     with_client gemini_client
       (\<lambda>client.
          (case (case json_loads l schema of
                   Inl e \<Rightarrow> (Inl e, client, [])
                 | Inr schema_dict \<Rightarrow>
                     (case read file of
                        Inl e \<Rightarrow> (Inl e, client, [])
                      | Inr contents \<Rightarrow>
                          (case decode_utf8 l contents of
                             Inl e \<Rightarrow> (Inl e, client, [])
                           | Inr txt \<Rightarrow> extract_structured_data l g client txt schema_dict))) of
             (Inl (JSONDecodeError _), self, reqs) \<Rightarrow>
               (Inl (HTTPException 400 ''Schema invalido. Use formato JSON valido''), self, reqs)
           | (Inl UnicodeDecodeError, self, reqs) \<Rightarrow>
               (Inl (HTTPException 400 ''No se pudo decodificar el archivo''), self, reqs)
           | out \<Rightarrow> out))"

definition analyze_csv_endpoint :: "lib \<Rightarrow> genai \<Rightarrow> gemini_api option \<Rightarrow> upload_file \<Rightarrow> string \<Rightarrow> route_outcome" where
  "analyze_csv_endpoint l g gemini_client file question =
     with_client gemini_client
       (\<lambda>client.
          if \<not> endswith (filename file) ''.csv''
          then (Inl (HTTPException 400 ''El archivo debe ser un CSV''), client, [])
          else except_unicode ''Error al leer el archivo CSV''
                 (case read file of
                    Inl e \<Rightarrow> (Inl e, client, [])
                  | Inr contents \<Rightarrow>
                      (case decode_utf8 l contents of
                         Inl e \<Rightarrow> (Inl e, client, [])
                       | Inr data_text \<Rightarrow> analyze_tabular_data l g client data_text question)))"

definition analyze_sentiment_endpoint :: "lib \<Rightarrow> genai \<Rightarrow> gemini_api option \<Rightarrow> string \<Rightarrow> bool \<Rightarrow> route_outcome" where
  "analyze_sentiment_endpoint l g gemini_client txt detailed =
     with_client gemini_client (\<lambda>client. analyze_sentiment l g client txt detailed)"

definition translate_endpoint :: "lib \<Rightarrow> genai \<Rightarrow> gemini_api option \<Rightarrow> string \<Rightarrow> string \<Rightarrow> string \<Rightarrow> route_outcome" where
  "translate_endpoint l g gemini_client txt target_language source_language =
     with_client gemini_client
       (\<lambda>client. translate_text l g client txt target_language source_language)"

definition summarize_endpoint :: "lib \<Rightarrow> genai \<Rightarrow> gemini_api option \<Rightarrow> string \<Rightarrow> string \<Rightarrow> bool \<Rightarrow> route_outcome" where
  "summarize_endpoint l g gemini_client txt summary_length bullet_points =
     with_client gemini_client
       (\<lambda>client. summarize_text l g client txt summary_length bullet_points)"

definition grammar_check_endpoint :: "lib \<Rightarrow> genai \<Rightarrow> gemini_api option \<Rightarrow> string \<Rightarrow> string \<Rightarrow> route_outcome" where
  "grammar_check_endpoint l g gemini_client txt language =
     with_client gemini_client (\<lambda>client. check_grammar l g client txt language)"

definition generate_content_endpoint :: "lib \<Rightarrow> genai \<Rightarrow> gemini_api option \<Rightarrow> string \<Rightarrow> string \<Rightarrow> rat \<Rightarrow> route_outcome" where
  "generate_content_endpoint l g gemini_client prompt ctype temperature =
     with_client gemini_client
       (\<lambda>client. generate_creative_content l g client prompt ctype temperature)"

definition generate_embeddings_endpoint :: "lib \<Rightarrow> genai \<Rightarrow> gemini_api option \<Rightarrow> string list \<Rightarrow> string \<Rightarrow> route_outcome" where
  "generate_embeddings_endpoint l g gemini_client texts task_type =
     with_client gemini_client (\<lambda>client. generate_embeddings l g client texts task_type)"

definition combined_image_analysis :: "lib \<Rightarrow> genai \<Rightarrow> gemini_api option \<Rightarrow> upload_file \<Rightarrow> string \<Rightarrow> route_outcome" where
  "combined_image_analysis l g gemini_client file ai_prompt =
     with_client gemini_client
       (\<lambda>client.
          if \<not> startswith (content_type file) ''image/''
          then (Inl (HTTPException 400 ''El archivo debe ser una imagen''), client, [])
          else (case read file of
                  Inl e \<Rightarrow> (Inl e, client, [])
                | Inr contents \<Rightarrow>
                    (case image_open l contents of
                       Inl e \<Rightarrow> (Inl e, client, [])
                     | Inr img \<Rightarrow>
                         (let file_info =
                                [(''filename'', PStr (filename file)),
                                 (''format'', PStr (img_format img)),
                                 (''size'', PStr (image_size img)),
                                 (''size_mb'', size_mb contents)]
                          in case analyze_image l g client contents ai_prompt ''bytes'' of
                               (Inl e, client', reqs) \<Rightarrow> (Inl e, client', reqs)
                             | (Inr ai_result, client', reqs) \<Rightarrow>
                                 (Inr [(''success'', PBool True),
                                       (''file_info'', PDict file_info),
                                       (''ai_analysis'', PDict ai_result),
                                       (''timestamp'', PStr (utcnow l))],
                                  client', reqs)))))"

definition combined_document_analysis :: "lib \<Rightarrow> genai \<Rightarrow> gemini_api option \<Rightarrow> upload_file \<Rightarrow> string \<Rightarrow> route_outcome" where
  "combined_document_analysis l g gemini_client file analysis_type =
     with_client gemini_client
       (\<lambda>client.
          except_unicode ''Error al decodificar el archivo''
            (case read file of
               Inl e \<Rightarrow> (Inl e, client, [])
             | Inr contents \<Rightarrow>
                 (case decode_utf8 l contents of
                    Inl e \<Rightarrow> (Inl e, client, [])
                  | Inr txt \<Rightarrow>
                      (let file_info =
                             [(''filename'', PStr (filename file)),
                              (''size_mb'', size_mb contents),
                              (''character_count'', PInt (int (length txt))),
                              (''word_count'', PInt (int (word_starts False txt)))]
                       in case analyze_document l g client txt analysis_type of
                            (Inl e, client', reqs) \<Rightarrow> (Inl e, client', reqs)
                          | (Inr ai_result, client', reqs) \<Rightarrow>
                              (Inr [(''success'', PBool True),
                                    (''file_info'', PDict file_info),
                                    (''ai_analysis'', PDict ai_result),
                                    (''timestamp'', PStr (utcnow l))],
                               client', reqs)))))"

text \<open>The two information routes do not call \<open>check_gemini_available()\<close>.\<close>

definition list_models :: "lib \<Rightarrow> gemini_api option \<Rightarrow> route_outcome" where
  "list_models l gemini_client =
     (Inr [(''success'', PBool True),
           (''models'', PDict (map (\<lambda>(k, v). (k, PStr v)) GEMINI_MODELS)),
           (''timestamp'', PStr (utcnow l))],
      gemini_client, [])"

definition gemini_status :: "lib \<Rightarrow> gemini_api option \<Rightarrow> route_outcome" where
  "gemini_status l gemini_client =
     (Inr [(''success'', PBool True),
           (''gemini_available'', PBool (gemini_client \<noteq> None)),
           (''timestamp'', PStr (utcnow l))],
      gemini_client, [])"

text \<open>The nineteen routes the router registers under the prefix /ai, with their inputs.\<close>

datatype ai_request =
    PostAnalyzeText string string rat
  | PostChat string string bool
  | GetChatHistory
  | DeleteChatHistory
  | PostAnalyzeImage upload_file string
  | PostCompareImages upload_file upload_file string
  | PostAnalyzeDocument upload_file string
  | PostExtractStructuredData upload_file string
  | PostAnalyzeCsv upload_file string
  | PostSentiment string bool
  | PostTranslate string string string
  | PostSummarize string string bool
  | PostGrammarCheck string string
  | PostGenerateContent string string rat
  | PostEmbeddings "string list" string
  | PostCombinedImageAnalysis upload_file string
  | PostCombinedDocumentAnalysis upload_file string
  | GetModels
  | GetStatus

fun ai_router :: "lib \<Rightarrow> genai \<Rightarrow> gemini_api option \<Rightarrow> ai_request \<Rightarrow> route_outcome" where
  "ai_router l g c (PostAnalyzeText txt model temperature) = analyze_text_endpoint l g c txt model temperature"
| "ai_router l g c (PostChat message model clear_history) = chat_endpoint l g c message model clear_history"
| "ai_router l g c GetChatHistory = get_chat_history_route c"
| "ai_router l g c DeleteChatHistory = clear_chat_history_route l c"
| "ai_router l g c (PostAnalyzeImage file prompt) = analyze_image_endpoint l g c file prompt"
| "ai_router l g c (PostCompareImages image1 image2 prompt) = compare_images_endpoint l g c image1 image2 prompt"
| "ai_router l g c (PostAnalyzeDocument file analysis_type) = analyze_document_endpoint l g c file analysis_type"
| "ai_router l g c (PostExtractStructuredData file schema) = extract_structured_data_endpoint l g c file schema"
| "ai_router l g c (PostAnalyzeCsv file question) = analyze_csv_endpoint l g c file question"
| "ai_router l g c (PostSentiment txt detailed) = analyze_sentiment_endpoint l g c txt detailed"
| "ai_router l g c (PostTranslate txt target source) = translate_endpoint l g c txt target source"
| "ai_router l g c (PostSummarize txt summary_length bullet_points) = summarize_endpoint l g c txt summary_length bullet_points"
| "ai_router l g c (PostGrammarCheck txt language) = grammar_check_endpoint l g c txt language"
| "ai_router l g c (PostGenerateContent prompt ctype temperature) = generate_content_endpoint l g c prompt ctype temperature"
| "ai_router l g c (PostEmbeddings texts task_type) = generate_embeddings_endpoint l g c texts task_type"
| "ai_router l g c (PostCombinedImageAnalysis file prompt) = combined_image_analysis l g c file prompt"
| "ai_router l g c (PostCombinedDocumentAnalysis file analysis_type) = combined_document_analysis l g c file analysis_type"
| "ai_router l g c GetModels = list_models l c"
| "ai_router l g c GetStatus = gemini_status l c"

section \<open>Observing a response\<close>

text \<open>
  What the framework sends for the outcome of a handler: the status of a raised
  HTTPException, 500 for any other exception that leaves the handler, 200 for a
  returned JSONResponse.
\<close>

fun http_status :: "exn + py_dict \<Rightarrow> nat" where
  "http_status (Inl (HTTPException code _)) = code"
| "http_status (Inl _) = 500"
| "http_status (Inr _) = 200"

text \<open>The entry \<open>response["data"][k]\<close> of a returned body, when it is there.\<close>

definition response_data :: "py_dict \<Rightarrow> string \<Rightarrow> pyval option" where
  "response_data resp k =
     (case map_of resp ''data'' of
        Some (PDict d) \<Rightarrow> map_of d k
      | _ \<Rightarrow> None)"

text \<open>Whether a per-file result of the batch upload is marked successful.\<close>

definition item_success :: "py_dict \<Rightarrow> bool" where
  "item_success r = (map_of r ''success'' = Some (PBool True))"



text \<open>
  A library environment for evaluating the handlers on concrete requests: every
  inspector fails and text decoding is the identity on ASCII. Concrete evaluations
  override the fields they exercise.
\<close>

definition sample_lib :: lib where
  "sample_lib =
     \<lparr> image_open = (\<lambda>b. Inl (OtherError ''cannot identify image file'')),
       zip_filelist = (\<lambda>b. Inl BadZipFile),
       decode_utf8 = (\<lambda>b. Inr b),
       splitlines = (\<lambda>t. [t]),
       csv_reader = (\<lambda>ls. Inr []),
       json_loads = (\<lambda>t. Inl (JSONDecodeError ''Expecting value'')),
       xml_fromstring = (\<lambda>t. Inl (ParseError ''syntax error'')),
       utcnow = ''2024-01-01T00:00:00'',
       str_exn = (\<lambda>e. ''error''),
       str_float = (\<lambda>x. ''float'') \<rparr>"

text \<open>Concrete requests for the evaluations below.\<close>

definition notes_txt :: upload_file where
  "notes_txt = \<lparr> filename = ''notes.txt'', content_type = ''text/plain'', read = Inr ''hello'' \<rparr>"







definition not_a_pdf :: upload_file where
  "not_a_pdf = \<lparr> filename = ''report.pdf'', content_type = ''application/pdf'', read = Inr ''hello'' \<rparr>"

definition batch_of_three :: "upload_file list" where
  "batch_of_three =
     [\<lparr> filename = ''a.png'', content_type = ''image/png'', read = Inr ''x'' \<rparr>,
      \<lparr> filename = ''b.exe'', content_type = ''application/octet-stream'', read = Inr ''y'' \<rparr>,
      \<lparr> filename = ''c.json'', content_type = ''application/json'', read = Inr ''{}'' \<rparr>]"




section \<open>Observing a call of the gateway\<close>

text \<open>
  A call of a public method of a GeminiAPI object, with its arguments, and what the
  call evaluates to. \<open>get_chat_history\<close> returns a list, every other method a dict.
\<close>

datatype gemini_call =
    CallAnalyzeText string string rat
  | CallChat string string bool
  | CallGetChatHistory
  | CallClearChatHistory
  | CallAnalyzeImage bytes string string
  | CallCompareImages bytes bytes string
  | CallAnalyzeDocument string string
  | CallExtractStructuredData string pyval
  | CallAnalyzeSentiment string bool
  | CallGenerateEmbeddings "string list" string
  | CallTranslateText string string string
  | CallSummarizeText string string bool
  | CallGenerateCreativeContent string string rat
  | CallCheckGrammar string string
  | CallAnalyzeTabularData string string

definition as_value :: "outcome \<Rightarrow> (exn + pyval) \<times> gemini_api \<times> request list" where
  "as_value out = (case out of (r, self, reqs) \<Rightarrow> (map_sum id PDict r, self, reqs))"

fun invoke :: "lib \<Rightarrow> genai \<Rightarrow> gemini_api \<Rightarrow> gemini_call \<Rightarrow> (exn + pyval) \<times> gemini_api \<times> request list" where
  "invoke l g self (CallAnalyzeText txt model temperature) = as_value (analyze_text l g self txt model temperature)"
| "invoke l g self (CallChat message model clear_history) = as_value (chat l g self message model clear_history)"
| "invoke l g self CallGetChatHistory = (Inr (PList (map PDict (get_chat_history self))), self, [])"
| "invoke l g self CallClearChatHistory = as_value (clear_chat_history l self)"
| "invoke l g self (CallAnalyzeImage image_data prompt image_format) = as_value (analyze_image l g self image_data prompt image_format)"
| "invoke l g self (CallCompareImages image1_data image2_data prompt) = as_value (compare_images l g self image1_data image2_data prompt)"
| "invoke l g self (CallAnalyzeDocument document_text analysis_type) = as_value (analyze_document l g self document_text analysis_type)"
| "invoke l g self (CallExtractStructuredData txt schema) = as_value (extract_structured_data l g self txt schema)"
| "invoke l g self (CallAnalyzeSentiment txt detailed) = as_value (analyze_sentiment l g self txt detailed)"
| "invoke l g self (CallGenerateEmbeddings texts task_type) = as_value (generate_embeddings l g self texts task_type)"
| "invoke l g self (CallTranslateText txt target source) = as_value (translate_text l g self txt target source)"
| "invoke l g self (CallSummarizeText txt summary_length bullet_points) = as_value (summarize_text l g self txt summary_length bullet_points)"
| "invoke l g self (CallGenerateCreativeContent prompt ctype temperature) = as_value (generate_creative_content l g self prompt ctype temperature)"
| "invoke l g self (CallCheckGrammar txt language) = as_value (check_grammar l g self txt language)"
| "invoke l g self (CallAnalyzeTabularData data_text analysis_request) = as_value (analyze_tabular_data l g self data_text analysis_request)"

text \<open>The success shape of the envelope: \<open>success\<close> is true and a timestamp is present.\<close>

definition success_envelope :: "py_dict \<Rightarrow> bool" where
  "success_envelope d =
     (map_of d ''success'' = Some (PBool True) \<and> ''timestamp'' \<in> set (map fst d))"

text \<open>A library in which every call of the generative API and of its helpers fails.\<close>

definition sample_genai :: genai where
  "sample_genai =
     \<lparr> generate_content = (\<lambda>name temp contents. Inl (OtherError ''network unreachable'')),
       send_message = (\<lambda>name temp history message. Inl (OtherError ''network unreachable'')),
       embed_content = (\<lambda>name txt task. Inl (OtherError ''network unreachable'')),
       set_temperature = (\<lambda>t. Inr ()),
       b64decode = (\<lambda>b. Inr b),
       strip_fences = (\<lambda>s. s),
       str_pyval = (\<lambda>v. ''value'') \<rparr>"

definition sample_client :: gemini_api where
  "sample_client =
     \<lparr> api_key = ''key'', chat_history = [], temperature_pro = 7 / 10, temperature_flash = 7 / 10 \<rparr>"

text \<open>A library whose \<open>generate_content\<close> answers.\<close>

definition answering_genai :: genai where
  "answering_genai =
     sample_genai\<lparr>generate_content :=
       \<lambda>name temp contents. Inr \<lparr> response_text = Inr ''ok'', usage_metadata = Some (3, 5) \<rparr>\<rparr>"

text \<open>
  Whether the outcome of a \<open>try\<close> block is an exception or a dict of the success shape.
\<close>

definition ok_outcome :: "outcome \<Rightarrow> bool" where
  "ok_outcome out = (case fst out of Inl e \<Rightarrow> True | Inr d \<Rightarrow> success_envelope d)"

section \<open>Properties of the upload handlers\<close>

subsection \<open>Auxiliary facts\<close>

lemma checked_read_bad_extension:
  "\<not> validate_file_extension (filename file) ft \<Longrightarrow>
   checked_read l ft d file = Inl (HTTPException 400 d)"
  by (simp add: checked_read_def)

lemma subscript_max_size: "\<exists>m. subscript MAX_FILE_SIZE (category_key c) = Inr m"
  by (cases c) (simp_all add: subscript_def MAX_FILE_SIZE_def)

lemma checked_read_too_large:
  assumes "validate_file_extension (filename file) (category_key c)"
    and "read file = Inr contents"
    and "\<not> validate_file_size contents (category_key c)"
  shows "\<exists>d. checked_read l (category_key c) x file = Inl (HTTPException 413 d)"
proof -
  obtain m where "subscript MAX_FILE_SIZE (category_key c) = Inr m"
    using subscript_max_size by blast
  with assms show ?thesis
    by (simp add: checked_read_def)
qed

lemma checked_read_ok:
  "validate_file_extension (filename file) ft \<Longrightarrow> read file = Inr contents \<Longrightarrow>
   validate_file_size contents ft \<Longrightarrow> checked_read l ft d file = Inr contents"
  by (simp add: checked_read_def)

lemmas handler_defs =
  upload_image_def upload_image_try_def upload_video_def upload_video_try_def
  upload_zip_def upload_zip_try_def upload_pdf_def upload_pdf_try_def
  upload_excel_def upload_excel_try_def upload_csv_def upload_csv_try_def
  upload_word_def upload_word_try_def upload_audio_def upload_audio_try_def
  upload_json_def upload_json_try_def upload_xml_def upload_xml_try_def

lemmas extension_eval =
  validate_file_extension_def splitext_ext_def basename_def lower_def lower_char_def
  dict_get_def ALLOWED_EXTENSIONS_def

lemma bad_extension_500:
  assumes "\<not> validate_file_extension (filename file) (category_key c)"
  shows "http_status (files_upload c l file) = 500"
  using assms
  by (cases c) (simp_all add: handler_defs checked_read_bad_extension except_Exception_def)

lemma too_large_500:
  assumes "validate_file_extension (filename file) (category_key c)"
    and "read file = Inr contents"
    and "\<not> validate_file_size contents (category_key c)"
  shows "http_status (files_upload c l file) = 500"
proof -
  have *: "\<And>x. \<exists>d. checked_read l (category_key c) x file = Inl (HTTPException 413 d)"
    using checked_read_too_large [OF assms] by blast
  show ?thesis
  proof (cases c)
    case Image
    with * [of "format_detail ''image''"] show ?thesis
      by (auto simp: handler_defs except_Exception_def)
  next
    case Video
    with * [of "format_detail ''video''"] show ?thesis
      by (auto simp: handler_defs except_Exception_def)
  next
    case Zip
    with * [of "''Solo se permiten archivos .zip''"] show ?thesis
      by (auto simp: handler_defs except_Exception_def)
  next
    case Pdf
    with * [of "''Solo se permiten archivos .pdf''"] show ?thesis
      by (auto simp: handler_defs except_Exception_def)
  next
    case Excel
    with * [of "format_detail ''excel''"] show ?thesis
      by (auto simp: handler_defs except_Exception_def)
  next
    case Csv
    with * [of "''Solo se permiten archivos .csv''"] show ?thesis
      by (auto simp: handler_defs except_Exception_def)
  next
    case Word
    with * [of "format_detail ''word''"] show ?thesis
      by (auto simp: handler_defs except_Exception_def)
  next
    case Audio
    with * [of "format_detail ''audio''"] show ?thesis
      by (auto simp: handler_defs except_Exception_def)
  next
    case Json
    with * [of "''Solo se permiten archivos .json''"] show ?thesis
      by (auto simp: handler_defs except_Exception_def)
  next
    case Xml
    with * [of "''Solo se permiten archivos .xml''"] show ?thesis
      by (auto simp: handler_defs except_Exception_def)
  qed
qed

lemma never_413: "http_status (files_upload c l file) \<noteq> 413"
  by (cases c)
     (auto simp: upload_image_def upload_video_def upload_zip_def upload_pdf_def
        upload_excel_def upload_csv_def upload_word_def upload_audio_def upload_json_def
        upload_xml_def except_Exception_def split: sum.splits exn.splits)




lemma foldl_append_map: "foldl (\<lambda>acc x. acc @ [f x]) ys xs = ys @ map f xs"
  by (induction xs arbitrary: ys) simp_all

lemma response_data_generate:
  "data \<noteq> [] \<Longrightarrow> response_data (generate_response l ok msg data) k = map_of data k"
  by (simp add: response_data_def generate_response_def)



lemma batch_results:
  "foldl (\<lambda>results file. results @ [batch_item l file]) [] files = map (batch_item l) files"
  by (simp add: foldl_append_map)

lemma subscript_found:
  "find_file_type ALLOWED_EXTENSIONS ext = Some ft \<Longrightarrow> \<exists>m. subscript MAX_FILE_SIZE ft = Inr m"
  by (auto simp: ALLOWED_EXTENSIONS_def MAX_FILE_SIZE_def subscript_def split: if_splits)

lemma found_nonempty: "find_file_type ALLOWED_EXTENSIONS ext = Some ft \<Longrightarrow> ft \<noteq> []"
  by (auto simp: ALLOWED_EXTENSIONS_def split: if_splits)

lemma batch_item_filename:
  "map_of (batch_item l file) ''filename'' = Some (PStr (filename file))"
proof (cases "find_file_type ALLOWED_EXTENSIONS (lower (splitext_ext (filename file)))")
  case None
  then show ?thesis
    by (simp add: batch_item_def batch_item_try_def unsupported_item_def split: sum.splits)
next
  case (Some ft)
  with subscript_found obtain m where "subscript MAX_FILE_SIZE ft = Inr m" by blast
  with Some show ?thesis
    by (simp add: batch_item_def batch_item_try_def unsupported_item_def split: sum.splits)
qed

lemma batch_item_success:
  "item_success (batch_item l file) \<longleftrightarrow>
     (\<exists>contents ft. read file = Inr contents
        \<and> find_file_type ALLOWED_EXTENSIONS (lower (splitext_ext (filename file))) = Some ft
        \<and> validate_file_size contents ft)"
proof (cases "find_file_type ALLOWED_EXTENSIONS (lower (splitext_ext (filename file)))")
  case None
  then show ?thesis
    by (simp add: item_success_def batch_item_def batch_item_try_def unsupported_item_def
        split: sum.splits)
next
  case (Some ft)
  with subscript_found obtain m where "subscript MAX_FILE_SIZE ft = Inr m" by blast
  moreover have "ft \<noteq> []" using Some by (rule found_nonempty)
  ultimately show ?thesis using Some
    by (simp add: item_success_def batch_item_def batch_item_try_def unsupported_item_def
        split: sum.splits)
qed

lemma batch_item_unsupported:
  "find_file_type ALLOWED_EXTENSIONS (lower (splitext_ext (filename file))) = None \<Longrightarrow>
   read file = Inr contents \<Longrightarrow> batch_item l file = unsupported_item file"
  by (simp add: batch_item_def batch_item_try_def)




lemma size_ok_small: "length contents \<le> 5 \<Longrightarrow> validate_file_size contents ft"
  by (simp add: validate_file_size_def dict_get_def MAX_FILE_SIZE_def split: option.splits)

lemmas batch_eval =
  batch_item_def batch_item_try_def unsupported_item_def item_success_def
  splitext_ext_def basename_def lower_def lower_char_def ALLOWED_EXTENSIONS_def
  validate_file_size_def dict_get_def MAX_FILE_SIZE_def

subsection \<open>Status codes of the single-file routes\<close>

text \<open>
  C1. The claim: on each of the ten routes \<open>POST /files/upload/{category}\<close> a filename
  whose extension is not accepted is answered with HTTP 400, a payload over the size
  limit with HTTP 413, and HTTP 500 is kept for unexpected inspector failures.
  What the handlers do: the 400 and the 413 are raised inside the \<open>try\<close> block whose
  last clause is \<open>except Exception\<close>, so both leave the handler as HTTP 500, and no
  single-file route ever answers 413.
\<close>

theorem upload_validation_errors_answer_500:
  "(\<not> validate_file_extension (filename file) (category_key c) \<longrightarrow>
      http_status (files_upload c l file) = 500)
   \<and> (validate_file_extension (filename file) (category_key c)
        \<and> read file = Inr contents
        \<and> \<not> validate_file_size contents (category_key c) \<longrightarrow>
      http_status (files_upload c l file) = 500)
   \<and> http_status (files_upload c l file) \<noteq> 413"
  using bad_extension_500 too_large_500 never_413 by blast

theorem upload_validation_errors_answer_500_witness:
  "\<not> validate_file_extension (filename notes_txt) (category_key Image)
   \<and> http_status (files_upload Image sample_lib notes_txt) = 500
   \<and> http_status (files_upload Image sample_lib notes_txt) \<noteq> 400"
proof -
  have h: "\<not> validate_file_extension (filename notes_txt) (category_key Image)"
    by (simp add: notes_txt_def extension_eval)
  with upload_validation_errors_answer_500 [of notes_txt Image sample_lib "''hello''"]
  show ?thesis by simp
qed

subsection \<open>ZIP entries\<close>




subsection \<open>Batch upload\<close>

text \<open>
  C5. A request with more than 10 files is rejected as a whole with HTTP 400 and no
  per-file result. A request with at most 10 files returns one result per input file,
  in order and carrying that file's name; a result is marked successful exactly
  when its own file was read, its extension belongs to a registered category and its
  size is within that category's limit; a file whose extension belongs to no
  category gets the "unsupported" result. No item's outcome depends on another item.
\<close>

theorem upload_multiple_files_isolation:
  "(length files > 10 \<longrightarrow>
      upload_multiple_files l files = Inl (HTTPException 400 ''Maximo 10 archivos por solicitud''))
   \<and> (length files \<le> 10 \<longrightarrow>
      (\<exists>resp results. upload_multiple_files l files = Inr resp
         \<and> response_data resp ''results'' = Some (PList (map PDict results))
         \<and> length results = length files
         \<and> (\<forall>i < length files.
               map_of (results ! i) ''filename'' = Some (PStr (filename (files ! i)))
             \<and> (item_success (results ! i) \<longleftrightarrow>
                  (\<exists>contents ft. read (files ! i) = Inr contents
                     \<and> find_file_type ALLOWED_EXTENSIONS (lower (splitext_ext (filename (files ! i)))) = Some ft
                     \<and> validate_file_size contents ft))
             \<and> (find_file_type ALLOWED_EXTENSIONS (lower (splitext_ext (filename (files ! i)))) = None
                  \<and> (\<exists>contents. read (files ! i) = Inr contents)
                  \<longrightarrow> results ! i = unsupported_item (files ! i)))))"
proof (intro conjI impI)
  assume "length files > 10"
  then show "upload_multiple_files l files = Inl (HTTPException 400 ''Maximo 10 archivos por solicitud'')"
    by (simp add: upload_multiple_files_def)
next
  assume le: "length files \<le> 10"
  let ?results = "map (batch_item l) files"
  let ?resp = "generate_response l True (''Procesados '' @ str_nat (length ?results) @ '' archivos'')
                 [(''results'', PList (map PDict ?results))]"
  have "upload_multiple_files l files = Inr ?resp"
    using le by (simp add: upload_multiple_files_def batch_results Let_def)
  moreover have "response_data ?resp ''results'' = Some (PList (map PDict ?results))"
    by (simp add: response_data_generate)
  moreover have "length ?results = length files" by simp
  moreover have "\<forall>i < length files.
               map_of (?results ! i) ''filename'' = Some (PStr (filename (files ! i)))
             \<and> (item_success (?results ! i) \<longleftrightarrow>
                  (\<exists>contents ft. read (files ! i) = Inr contents
                     \<and> find_file_type ALLOWED_EXTENSIONS (lower (splitext_ext (filename (files ! i)))) = Some ft
                     \<and> validate_file_size contents ft))
             \<and> (find_file_type ALLOWED_EXTENSIONS (lower (splitext_ext (filename (files ! i)))) = None
                  \<and> (\<exists>contents. read (files ! i) = Inr contents)
                  \<longrightarrow> ?results ! i = unsupported_item (files ! i))"
    using batch_item_filename batch_item_success batch_item_unsupported by auto
  ultimately show "\<exists>resp results. upload_multiple_files l files = Inr resp
         \<and> response_data resp ''results'' = Some (PList (map PDict results))
         \<and> length results = length files
         \<and> (\<forall>i < length files.
               map_of (results ! i) ''filename'' = Some (PStr (filename (files ! i)))
             \<and> (item_success (results ! i) \<longleftrightarrow>
                  (\<exists>contents ft. read (files ! i) = Inr contents
                     \<and> find_file_type ALLOWED_EXTENSIONS (lower (splitext_ext (filename (files ! i)))) = Some ft
                     \<and> validate_file_size contents ft))
             \<and> (find_file_type ALLOWED_EXTENSIONS (lower (splitext_ext (filename (files ! i)))) = None
                  \<and> (\<exists>contents. read (files ! i) = Inr contents)
                  \<longrightarrow> results ! i = unsupported_item (files ! i)))"
    by blast
qed

theorem upload_multiple_files_isolation_witness:
  "length batch_of_three \<le> 10
   \<and> (\<exists>resp results. upload_multiple_files sample_lib batch_of_three = Inr resp
         \<and> response_data resp ''results'' = Some (PList (map PDict results))
         \<and> length results = 3
         \<and> item_success (results ! 0)
         \<and> results ! 1 = unsupported_item (batch_of_three ! 1)
         \<and> \<not> item_success (results ! 1)
         \<and> item_success (results ! 2))
   \<and> length (replicate 11 notes_txt) > 10
   \<and> upload_multiple_files sample_lib (replicate 11 notes_txt)
        = Inl (HTTPException 400 ''Maximo 10 archivos por solicitud'')"
proof -
  have le: "length batch_of_three \<le> 10"
    by (simp add: batch_of_three_def)
  have gt: "length (replicate 11 notes_txt) > 10"
    by simp
  from upload_multiple_files_isolation [of batch_of_three sample_lib] le
  obtain resp results where r:
    "upload_multiple_files sample_lib batch_of_three = Inr resp"
    "response_data resp ''results'' = Some (PList (map PDict results))"
    "length results = length batch_of_three"
    and each: "\<forall>i < length batch_of_three.
               map_of (results ! i) ''filename'' = Some (PStr (filename (batch_of_three ! i)))
             \<and> (item_success (results ! i) \<longleftrightarrow>
                  (\<exists>contents ft. read (batch_of_three ! i) = Inr contents
                     \<and> find_file_type ALLOWED_EXTENSIONS (lower (splitext_ext (filename (batch_of_three ! i)))) = Some ft
                     \<and> validate_file_size contents ft))
             \<and> (find_file_type ALLOWED_EXTENSIONS (lower (splitext_ext (filename (batch_of_three ! i)))) = None
                  \<and> (\<exists>contents. read (batch_of_three ! i) = Inr contents)
                  \<longrightarrow> results ! i = unsupported_item (batch_of_three ! i))"
    by blast
  have len: "length batch_of_three = 3"
    by (simp add: batch_of_three_def)
  have e0: "find_file_type ALLOWED_EXTENSIONS (lower (splitext_ext (filename (batch_of_three ! 0)))) = Some ''image''"
    by (simp add: batch_of_three_def batch_eval)
  have e1: "find_file_type ALLOWED_EXTENSIONS (lower (splitext_ext (filename (batch_of_three ! 1)))) = None"
    by (simp add: batch_of_three_def batch_eval)
  have e2: "find_file_type ALLOWED_EXTENSIONS (lower (splitext_ext (filename (batch_of_three ! 2)))) = Some ''json''"
    by (simp add: batch_of_three_def batch_eval)
  have r0: "read (batch_of_three ! 0) = Inr ''x''" and r1: "read (batch_of_three ! 1) = Inr ''y''"
    and r2: "read (batch_of_three ! 2) = Inr ''{}''"
    by (simp_all add: batch_of_three_def)
  have s0: "item_success (results ! 0)"
    using each [rule_format, of 0] len e0 r0 size_ok_small [of "''x''" "''image''"] by simp
  have s1: "results ! 1 = unsupported_item (batch_of_three ! 1)"
    using each [rule_format, of 1] len e1 r1 by simp
  have n1: "\<not> item_success (results ! 1)"
    using each [rule_format, of 1] len e1 by simp
  have s2: "item_success (results ! 2)"
    using each [rule_format, of 2] len e2 r2 size_ok_small [of "''{}''" "''json''"] by simp
  have big: "upload_multiple_files sample_lib (replicate 11 notes_txt)
        = Inl (HTTPException 400 ''Maximo 10 archivos por solicitud'')"
    using upload_multiple_files_isolation [of "replicate 11 notes_txt" sample_lib] gt by blast
  show ?thesis
    using le gt r len s0 s1 n1 s2 big by auto
qed

subsection \<open>CSV\<close>



subsection \<open>XML\<close>



subsection \<open>JSON\<close>



subsection \<open>PDF\<close>

text \<open>
  C9. The claim: a PDF upload that passes the extension and size checks is reported
  valid when its first four bytes are \<open>%PDF\<close>, whatever follows, and is rejected with
  an invalid-format error otherwise. The first half holds. In the second case the
  handler raises the 400 "not a valid PDF" error inside its \<open>try\<close> block and its own
  \<open>except Exception\<close> clause replaces it: the request is answered with HTTP 500.
\<close>

theorem upload_pdf_signature:
  assumes "validate_file_extension (filename file) ''pdf''"
    and "read file = Inr contents"
    and "validate_file_size contents ''pdf''"
  shows "(startswith contents ''%PDF'' \<longrightarrow>
            (\<exists>resp. upload_pdf l file = Inr resp
               \<and> response_data resp ''is_valid'' = Some (PBool True)))
       \<and> (\<not> startswith contents ''%PDF'' \<longrightarrow>
            upload_pdf l file =
              Inl (HTTPException 500 (''Error al procesar PDF: '' @
                 str_exn l (HTTPException 400 ''El archivo no es un PDF valido'')))
          \<and> http_status (upload_pdf l file) = 500)"
proof -
  have rd: "checked_read l ''pdf'' ''Solo se permiten archivos .pdf'' file = Inr contents"
    using assms(1-3) by (rule checked_read_ok)
  show ?thesis
    by (simp add: upload_pdf_def upload_pdf_try_def rd response_data_generate except_Exception_def)
qed

theorem upload_pdf_signature_witness:
  "validate_file_extension (filename not_a_pdf) ''pdf''
   \<and> read not_a_pdf = Inr ''hello''
   \<and> validate_file_size ''hello'' ''pdf''
   \<and> \<not> startswith ''hello'' ''%PDF''
   \<and> http_status (upload_pdf sample_lib not_a_pdf) = 500"
proof -
  have h1: "validate_file_extension (filename not_a_pdf) ''pdf''"
    by (simp add: not_a_pdf_def extension_eval)
  have h2: "read not_a_pdf = Inr ''hello''"
    by (simp add: not_a_pdf_def)
  have h3: "validate_file_size ''hello'' ''pdf''"
    by (simp add: size_ok_small)
  have h4: "\<not> startswith ''hello'' ''%PDF''"
    by (simp add: startswith_def)
  show ?thesis
    using upload_pdf_signature [OF h1 h2 h3, of sample_lib] h1 h2 h3 h4 by simp
qed

subsection \<open>Size validation of an unknown category\<close>

text \<open>
  C10. For a category key that is not in the size table, \<open>validate_file_size\<close> returns
  true exactly when the payload has at most \<open>5 * 1024 * 1024\<close> bytes; the lookup has a
  default and does not fail.
\<close>

theorem validate_file_size_default:
  "map_of MAX_FILE_SIZE file_type = None \<Longrightarrow>
   validate_file_size file_content file_type = (length file_content \<le> 5 * 1024 * 1024)"
  by (simp add: validate_file_size_def dict_get_def)

theorem validate_file_size_default_witness:
  "map_of MAX_FILE_SIZE ''txt'' = None
   \<and> validate_file_size ''hello'' ''txt'' = (length ''hello'' \<le> 5 * 1024 * 1024)
   \<and> validate_file_size ''hello'' ''txt''"
proof -
  have h: "map_of MAX_FILE_SIZE ''txt'' = None"
    by (simp add: MAX_FILE_SIZE_def)
  show ?thesis
    using validate_file_size_default [OF h, of "''hello''"] h by simp
qed

section \<open>Properties of the generative gateway\<close>

lemma ok_outcome_Inl: "ok_outcome (Inl e, s, r)"
  by (simp add: ok_outcome_def)

lemma ok_outcome_Inr: "ok_outcome (Inr d, s, r) = success_envelope d"
  by (simp add: ok_outcome_def)

lemma ok_outcome_result: "ok_outcome (res, s, r) = (case res of Inl e \<Rightarrow> True | Inr d \<Rightarrow> success_envelope d)"
  by (simp add: ok_outcome_def)

lemma ok_generate:
  assumes "\<And>response t. case k response t of Inl e \<Rightarrow> True | Inr d \<Rightarrow> success_envelope d"
  shows "ok_outcome (generate g self name temp contents k)"
proof -
  have "\<And>response t d. k response t = Inr d \<Longrightarrow> success_envelope d"
    using assms by (metis sum.simps(6))
  then show ?thesis
    by (auto simp: generate_def ok_outcome_def split: sum.split)
qed

lemma success_envelope_literal:
  "success_envelope ((''success'', PBool True) # rest) = (''timestamp'' \<in> set (map fst rest))"
  by (simp add: success_envelope_def)

lemma except_return_envelope:
  assumes "ok_outcome out"
  shows "\<exists>d. fst (as_value (except_return l out)) = Inr (PDict d)
           \<and> (success_envelope d \<or> (\<exists>e. d = failure l e))"
proof (cases out)
  case (fields r self reqs)
  show ?thesis
  proof (cases r)
    case (Inl e)
    with fields show ?thesis
      by (auto simp: except_return_def as_value_def)
  next
    case (Inr d)
    with fields assms have "success_envelope d" by (simp add: ok_outcome_def)
    with fields Inr show ?thesis
      by (auto simp: except_return_def as_value_def)
  qed
qed

lemma analyze_text_try_ok: "ok_outcome (analyze_text_try l g self txt model temperature)"
  by (simp add: analyze_text_try_def Let_def ok_generate ok_outcome_Inl success_envelope_literal
      split: sum.split)

lemma chat_record_ok:
  "case fst (chat_record l self1 message model response) of Inl e \<Rightarrow> True | Inr d \<Rightarrow> success_envelope d"
  by (simp add: chat_record_def Let_def success_envelope_literal split: sum.split)

lemma chat_core_ok:
  "ok_outcome
     (case cp of
        Inl e \<Rightarrow> (Inl e, self1, [])
      | Inr history \<Rightarrow>
          (case sm history of
             Inl e \<Rightarrow> (Inl e, self1, [rq history])
           | Inr response \<Rightarrow>
               (case chat_record l self1 message model response of
                  (r, self3) \<Rightarrow> (r, self3, [rq history]))))"
proof (cases cp)
  case (Inl e)
  then show ?thesis by (simp add: ok_outcome_Inl)
next
  case (Inr history)
  show ?thesis
  proof (cases "sm history")
    case (Inl e)
    with Inr show ?thesis by (simp add: ok_outcome_Inl)
  next
    case sm: (Inr response)
    obtain r self3 where cr: "chat_record l self1 message model response = (r, self3)"
      by (cases "chat_record l self1 message model response")
    with chat_record_ok [of l self1 message model response]
    have "case r of Inl e \<Rightarrow> True | Inr d \<Rightarrow> success_envelope d" by simp
    with Inr sm cr show ?thesis by (simp add: ok_outcome_result)
  qed
qed

lemma chat_try_ok: "ok_outcome (chat_try l g self message model clear_history)"
  unfolding chat_try_def Let_def by (rule chat_core_ok)


lemma analyze_image_try_ok: "ok_outcome (analyze_image_try l g self image_data prompt image_format)"
  by (simp add: analyze_image_try_def ok_generate ok_outcome_Inl success_envelope_literal
      split: sum.split)

lemma compare_images_try_ok: "ok_outcome (compare_images_try l g self a b p)"
  by (simp add: compare_images_try_def ok_generate ok_outcome_Inl success_envelope_literal
      split: sum.split)

lemma analyze_document_try_ok: "ok_outcome (analyze_document_try l g self a b)"
  by (simp add: analyze_document_try_def Let_def ok_generate ok_outcome_Inl success_envelope_literal
      split: sum.split)

lemma extract_structured_data_try_ok: "ok_outcome (extract_structured_data_try l g self a b)"
  by (simp add: extract_structured_data_try_def ok_generate ok_outcome_Inl success_envelope_literal
      split: sum.split)

lemma analyze_sentiment_try_ok: "ok_outcome (analyze_sentiment_try l g self a b)"
  by (simp add: analyze_sentiment_try_def ok_generate success_envelope_literal)

lemma generate_embeddings_try_ok: "ok_outcome (generate_embeddings_try l g self a b)"
  by (simp add: generate_embeddings_try_def ok_outcome_result success_envelope_literal
      split: prod.split sum.split)

lemma translate_text_try_ok: "ok_outcome (translate_text_try l g self a b c)"
  by (simp add: translate_text_try_def Let_def ok_generate success_envelope_literal)

lemma summarize_text_try_ok: "ok_outcome (summarize_text_try l g self a b c)"
  by (simp add: summarize_text_try_def Let_def ok_generate success_envelope_literal)

lemma generate_creative_content_try_ok: "ok_outcome (generate_creative_content_try l g self a b c)"
  by (simp add: generate_creative_content_try_def Let_def ok_generate ok_outcome_Inl
      success_envelope_literal split: sum.split)

lemma check_grammar_try_ok: "ok_outcome (check_grammar_try l g self a b)"
  by (simp add: check_grammar_try_def Let_def ok_generate success_envelope_literal)

lemma analyze_tabular_data_try_ok: "ok_outcome (analyze_tabular_data_try l g self a b)"
  by (simp add: analyze_tabular_data_try_def Let_def ok_generate success_envelope_literal)

lemmas try_ok =
  analyze_text_try_ok chat_try_ok analyze_image_try_ok compare_images_try_ok
  analyze_document_try_ok extract_structured_data_try_ok analyze_sentiment_try_ok
  generate_embeddings_try_ok translate_text_try_ok summarize_text_try_ok
  generate_creative_content_try_ok check_grammar_try_ok analyze_tabular_data_try_ok

lemmas method_defs =
  analyze_text_def chat_def analyze_image_def compare_images_def analyze_document_def
  extract_structured_data_def analyze_sentiment_def generate_embeddings_def
  translate_text_def summarize_text_def generate_creative_content_def check_grammar_def
  analyze_tabular_data_def

lemma clear_chat_history_envelope:
  "\<exists>d. fst (as_value (clear_chat_history l self)) = Inr (PDict d) \<and> success_envelope d"
  by (simp add: clear_chat_history_def as_value_def success_envelope_literal)

subsection \<open>The envelope of the gateway methods\<close>

text \<open>
  C3 (as amended). Every public method of GeminiAPI other than \<open>get_chat_history\<close>
  returns a dict and never raises: the thirteen operation methods wrap their whole
  body in \<open>try ... except Exception\<close>, so whatever a library or remote call raises comes
  back as \<open>{success: False, error, timestamp}\<close>, and a normal return carries
  \<open>success: True\<close> and a timestamp; \<open>clear_chat_history\<close> always returns the success
  shape.
\<close>

theorem gateway_methods_answer_in_band:
  "call \<noteq> CallGetChatHistory \<Longrightarrow>
   (\<exists>d. fst (invoke l g self call) = Inr (PDict d)
      \<and> (success_envelope d \<or> (\<exists>e. d = failure l e)))
   \<and> map fst (failure l e0) = [''success'', ''error'', ''timestamp'']
   \<and> map_of (failure l e0) ''success'' = Some (PBool False)"
proof (intro conjI)
  assume "call \<noteq> CallGetChatHistory"
  then show "\<exists>d. fst (invoke l g self call) = Inr (PDict d)
      \<and> (success_envelope d \<or> (\<exists>e. d = failure l e))"
    using clear_chat_history_envelope [of l self]
    by (cases call) (auto simp only: invoke.simps method_defs intro: except_return_envelope try_ok)
qed (simp_all add: failure_def)


theorem gateway_methods_answer_in_band_witness:
  "CallAnalyzeText ''hola'' ''flash'' (7 / 10) \<noteq> CallGetChatHistory
   \<and> (\<exists>d. fst (invoke sample_lib sample_genai sample_client (CallAnalyzeText ''hola'' ''flash'' (7 / 10)))
            = Inr (PDict d)
          \<and> (success_envelope d \<or> (\<exists>e. d = failure sample_lib e)))
   \<and> fst (invoke sample_lib sample_genai sample_client (CallAnalyzeText ''hola'' ''flash'' (7 / 10)))
        = Inr (PDict (failure sample_lib (OtherError ''network unreachable'')))
   \<and> fst (invoke sample_lib answering_genai sample_client (CallAnalyzeText ''hola'' ''flash'' (7 / 10)))
        = Inr (PDict [(''success'', PBool True),
                      (''response'', PStr ''ok''),
                      (''model_used'', PStr ''gemini-1.5-flash-latest''),
                      (''prompt_tokens'', PInt 3),
                      (''completion_tokens'', PInt 5),
                      (''timestamp'', PStr ''2024-01-01T00:00:00'')])"
proof -
  have ne: "CallAnalyzeText ''hola'' ''flash'' (7 / 10) \<noteq> CallGetChatHistory"
    by simp
  have down: "fst (invoke sample_lib sample_genai sample_client (CallAnalyzeText ''hola'' ''flash'' (7 / 10)))
        = Inr (PDict (failure sample_lib (OtherError ''network unreachable'')))"
    by (simp add: analyze_text_def analyze_text_try_def generate_def sample_genai_def
        except_return_def as_value_def)
  have up: "fst (invoke sample_lib answering_genai sample_client (CallAnalyzeText ''hola'' ''flash'' (7 / 10)))
        = Inr (PDict [(''success'', PBool True),
                      (''response'', PStr ''ok''),
                      (''model_used'', PStr ''gemini-1.5-flash-latest''),
                      (''prompt_tokens'', PInt 3),
                      (''completion_tokens'', PInt 5),
                      (''timestamp'', PStr ''2024-01-01T00:00:00'')])"
    by (simp add: analyze_text_def analyze_text_try_def generate_def answering_genai_def
        except_return_def as_value_def subscript_def GEMINI_MODELS_def token_count_def
        sample_lib_def)
  from gateway_methods_answer_in_band [OF ne, of sample_lib sample_genai sample_client]
  have "\<exists>d. fst (invoke sample_lib sample_genai sample_client (CallAnalyzeText ''hola'' ''flash'' (7 / 10)))
            = Inr (PDict d)
          \<and> (success_envelope d \<or> (\<exists>e. d = failure sample_lib e))"
    by blast
  with ne down up show ?thesis by blast
qed

text \<open>
  C3 as stated fails for \<open>get_chat_history\<close>, which returns the bare history list, not
  an envelope; and the constructor raises ValueError when no key is configured.
\<close>

theorem get_chat_history_counterexample:
  "fst (invoke sample_lib sample_genai sample_client CallGetChatHistory) = Inr (PList [])
   \<and> \<not> (\<exists>d. fst (invoke sample_lib sample_genai sample_client CallGetChatHistory) = Inr (PDict d))
   \<and> GeminiAPI None None = Inl (ValueError ''API key no proporcionada'')"
  by (simp add: get_chat_history_def sample_client_def GeminiAPI_def)

lemmas endpoint_defs =
  analyze_text_endpoint_def chat_endpoint_def get_chat_history_route_def
  clear_chat_history_route_def analyze_image_endpoint_def compare_images_endpoint_def
  analyze_document_endpoint_def extract_structured_data_endpoint_def analyze_csv_endpoint_def
  analyze_sentiment_endpoint_def translate_endpoint_def summarize_endpoint_def
  grammar_check_endpoint_def generate_content_endpoint_def generate_embeddings_endpoint_def
  combined_image_analysis_def combined_document_analysis_def

lemma with_client_None:
  "with_client None rest =
     (Inl (HTTPException 503 ''Servicio de IA no disponible. Configure GOOGLE_API_KEY''), None, [])"
  by (simp add: with_client_def check_gemini_available_def)

subsection \<open>The /ai routes without a client\<close>

text \<open>
  C2 (as amended). When GOOGLE_API_KEY is absent (or empty) at import, the module's
  client is None; then every /ai route except \<open>GET /ai/models\<close> and \<open>GET /ai/status\<close>
  raises HTTPException 503 as its first step and issues no request to the
  generative API, whatever the library would answer; the two information routes
  return a success body, also without any request.
\<close>

theorem ai_routes_without_client:
  "init_gemini_client None = Inr None
   \<and> init_gemini_client (Some []) = Inr None
   \<and> (req \<noteq> GetModels \<and> req \<noteq> GetStatus \<longrightarrow>
        ai_router l g None req =
          (Inl (HTTPException 503 ''Servicio de IA no disponible. Configure GOOGLE_API_KEY''), None, []))
   \<and> (req = GetModels \<or> req = GetStatus \<longrightarrow>
        (\<exists>body. ai_router l g None req = (Inr body, None, [])
           \<and> map_of body ''success'' = Some (PBool True)))"
proof (intro conjI impI)
  show "init_gemini_client None = Inr None"
    by (simp add: init_gemini_client_def GeminiAPI_def)
  show "init_gemini_client (Some []) = Inr None"
    by (simp add: init_gemini_client_def GeminiAPI_def)
next
  assume "req \<noteq> GetModels \<and> req \<noteq> GetStatus"
  then show "ai_router l g None req =
          (Inl (HTTPException 503 ''Servicio de IA no disponible. Configure GOOGLE_API_KEY''), None, [])"
    by (cases req) (simp_all add: endpoint_defs with_client_None)
next
  assume "req = GetModels \<or> req = GetStatus"
  then show "\<exists>body. ai_router l g None req = (Inr body, None, [])
           \<and> map_of body ''success'' = Some (PBool True)"
    by (auto simp: list_models_def gemini_status_def)
qed

theorem ai_routes_without_client_witness:
  "PostChat ''hola'' ''flash'' False \<noteq> GetModels
   \<and> PostChat ''hola'' ''flash'' False \<noteq> GetStatus
   \<and> ai_router sample_lib answering_genai None (PostChat ''hola'' ''flash'' False) =
        (Inl (HTTPException 503 ''Servicio de IA no disponible. Configure GOOGLE_API_KEY''), None, [])
   \<and> http_status (fst (ai_router sample_lib answering_genai None (PostChat ''hola'' ''flash'' False))) = 503"
proof -
  have ne: "PostChat ''hola'' ''flash'' False \<noteq> GetModels \<and> PostChat ''hola'' ''flash'' False \<noteq> GetStatus"
    by simp
  with ai_routes_without_client [of "PostChat ''hola'' ''flash'' False" sample_lib answering_genai]
  show ?thesis by simp
qed

text \<open>
  C2 as stated fails: with no key configured, \<open>GET /ai/models\<close> and \<open>GET /ai/status\<close>
  answer 200.
\<close>

theorem list_models_counterexample:
  "init_gemini_client None = Inr None
   \<and> http_status (fst (ai_router sample_lib sample_genai None GetModels)) = 200
   \<and> http_status (fst (ai_router sample_lib sample_genai None GetStatus)) = 200"
  by (simp add: init_gemini_client_def GeminiAPI_def list_models_def gemini_status_def)

end
